theory Spec2Isabelle
  imports Main
begin

section \<open>Data model\<close>

text \<open>
  Timestamps are the time values of JavaScript \<^verbatim>\<open>Date\<close> objects: integral milliseconds
  since the epoch. The code sends them to the store with \<^verbatim>\<open>toISOString()\<close>, which keeps all
  of the milliseconds, and parses the store's answer back with \<^verbatim>\<open>new Date(...)\<close>; the
  textual form is not modelled. Quantities are JavaScript numbers holding the integers of
  an \<^verbatim>\<open>INTEGER\<close> column, so sums of them are exact and \<^typ>\<open>int\<close> models them.
  Identifiers are opaque strings.
\<close>

type_synonym timestamp = int

datatype ReservationStatus = PENDING | CONFIRMED | CANCELLED | EXPIRED

text \<open>\<^verbatim>\<open>interface Reservation\<close> (a row of table \<^verbatim>\<open>reservations\<close>); \<^verbatim>\<open>null\<close> is \<^const>\<open>None\<close>.\<close>

record Reservation =
  id_res :: string
  item_id :: string
  customer_id :: string
  quantity :: int
  status :: ReservationStatus
  created_at :: timestamp
  expires_at :: timestamp
  confirmed_at :: "timestamp option"
  cancelled_at :: "timestamp option"

text \<open>
  \<^verbatim>\<open>interface ReservationResponse\<close>: the last two properties are optional
  (\<^verbatim>\<open>confirmed_at?: string | null\<close>), so each is absent (\<^const>\<open>None\<close>), \<^verbatim>\<open>null\<close>
  (\<open>Some None\<close>) or a time.
\<close>

record ReservationResponse =
  id_resp :: string
  item_id_resp :: string
  customer_id_resp :: string
  quantity_resp :: int
  status_resp :: ReservationStatus
  created_at_resp :: timestamp
  expires_at_resp :: timestamp
  confirmed_at_resp :: "timestamp option option"
  cancelled_at_resp :: "timestamp option option"

record Item =
  id_item :: string
  name :: string
  total_quantity :: int
  created_at_item :: timestamp
  updated_at :: timestamp

record ItemStatus =
  id_st :: string
  name_st :: string
  total_quantity_st :: int
  available_quantity :: int
  reserved_quantity :: int
  confirmed_quantity :: int
  created_at_st :: timestamp
  updated_at_st :: timestamp

record CreateReservationInput =
  item_id_in :: string
  customer_id_in :: string
  quantity_in :: int

record ExpireReservationsResult =
  expired_count :: nat
  expired_reservation_ids :: "string list"

datatype ErrorCode =
    INTERNAL_SERVER_ERROR | NOT_FOUND | VALIDATION_ERROR | TOO_MANY_REQUESTS
  | DATABASE_ERROR
  | ITEM_NOT_FOUND
  | RESERVATION_NOT_FOUND | INSUFFICIENT_QUANTITY | RESERVATION_EXPIRED
  | RESERVATION_CANCELLED | RESERVATION_CONFIRMED

text \<open>\<^verbatim>\<open>class AppError\<close>; a \<^verbatim>\<open>throw\<close> is the left injection of the result.\<close>

record AppError =
  statusCode :: int
  message :: string
  code :: ErrorCode

type_synonym 'a result = "AppError + 'a"

section \<open>The store\<close>

text \<open>
  The two tables of \<^verbatim>\<open>migrations/initial_schema.sql\<close>, as lists of rows. The store
  answers a request with the rows asked for or with an error: \<^verbatim>\<open>PGRST116\<close>, when a
  \<^verbatim>\<open>.single()\<close> row is asked for and not exactly one row qualifies, or an error of
  Postgres, which every caller treats alike. The one error of Postgres that the model
  produces is the refusal of a row that violates a constraint of the schema; a store that
  cannot be reached is not modelled.
\<close>

record database =
  items :: "Item list"
  reservations :: "Reservation list"

datatype PostgrestError = PGRST116 | PostgresError

fun single :: "'a list \<Rightarrow> PostgrestError + 'a" where
  "single [x] = Inr x"
| "single xs = Inl PGRST116"

text \<open>
  A string of the model is a list of characters with code points below 256; for those the
  length that the request schema measures and the length that Postgres measures agree.

  A value for a \<^verbatim>\<open>VARCHAR(255)\<close> column: text cannot hold the character U+0000; a
  value longer than 255 characters is refused, unless the characters in excess are all
  spaces, in which case it is cut to 255 characters.
\<close>

definition VARCHAR_255 :: "string \<Rightarrow> string option" where
  "VARCHAR_255 s =
     (if CHR 0x00 \<in> set s then None
      else if length s \<le> 255 then Some s
      else if list_all (\<lambda>c. c = CHR '' '') (drop 255 s) then Some (take 255 s)
      else None)"

text \<open>A value for an \<^verbatim>\<open>INTEGER\<close> column.\<close>

definition INTEGER :: "int \<Rightarrow> bool" where
  "INTEGER n \<longleftrightarrow> - 2147483648 \<le> n \<and> n \<le> 2147483647"

text \<open>\<^verbatim>\<open>TRIM(s)\<close> of SQL strips spaces from both ends.\<close>

definition TRIM :: "string \<Rightarrow> string" where
  "TRIM s = rev (dropWhile (\<lambda>c. c = CHR '' '') (rev (dropWhile (\<lambda>c. c = CHR '' '') s)))"

text \<open>
  The constraints of table \<^verbatim>\<open>reservations\<close> on one row given the rest of the store:
  primary key, foreign key and the two \<^verbatim>\<open>CHECK\<close>s.
\<close>

definition reservations_constraints :: "database \<Rightarrow> Reservation \<Rightarrow> bool" where
  "reservations_constraints db r \<longleftrightarrow>
     id_res r \<notin> set (map id_res (reservations db))
   \<and> item_id r \<in> set (map id_item (items db))
   \<and> length (TRIM (customer_id r)) > 0
   \<and> quantity r > 0"

text \<open>
  The row that the store keeps for a row it is asked to insert, if it accepts it: the
  values are first made to fit their columns, then the constraints are checked.
\<close>

definition accepted_row :: "database \<Rightarrow> Reservation \<Rightarrow> Reservation option" where
  "accepted_row db r =
     (case VARCHAR_255 (customer_id r) of
        None \<Rightarrow> None
      | Some c \<Rightarrow>
          if INTEGER (quantity r) \<and> reservations_constraints db (r\<lparr>customer_id := c\<rparr>)
          then Some (r\<lparr>customer_id := c\<rparr>) else None)"

text \<open>
  \<^verbatim>\<open>.from('reservations').insert({...}).select().single()\<close>: the columns not given take
  their defaults (\<^verbatim>\<open>gen_random_uuid()\<close>, \<^verbatim>\<open>NOW()\<close>, \<^verbatim>\<open>NULL\<close>), which the caller of this
  function supplies in \<open>r\<close>.
\<close>

definition insert_reservation :: "Reservation \<Rightarrow> database \<Rightarrow> database \<times> (PostgrestError + Reservation)" where
  "insert_reservation r db =
     (case accepted_row db r of
        Some r' \<Rightarrow> (db\<lparr>reservations := reservations db @ [r']\<rparr>, Inr r')
      | None \<Rightarrow> (db, Inl PostgresError))"

text \<open>
  \<^verbatim>\<open>.update(f).<filters P>.select().single()\<close>: the rows that satisfy \<open>P\<close> are
  rewritten and returned; a singular request that touches no row, or more than one, is
  answered with \<^verbatim>\<open>PGRST116\<close> and leaves the table as it was.
\<close>

definition update_single ::
  "(Reservation \<Rightarrow> bool) \<Rightarrow> (Reservation \<Rightarrow> Reservation) \<Rightarrow> database
     \<Rightarrow> database \<times> (PostgrestError + Reservation)" where
  "update_single P f db =
     (case single (filter P (reservations db)) of
        Inr r \<Rightarrow> (db\<lparr>reservations := map (\<lambda>r. if P r then f r else r) (reservations db)\<rparr>, Inr (f r))
      | Inl e \<Rightarrow> (db, Inl e))"

text \<open>\<^verbatim>\<open>.update(f).<filters P>\<close> with no rows asked back.\<close>

definition update_where ::
  "(Reservation \<Rightarrow> bool) \<Rightarrow> (Reservation \<Rightarrow> Reservation) \<Rightarrow> database \<Rightarrow> database" where
  "update_where P f db = db\<lparr>reservations := map (\<lambda>r. if P r then f r else r) (reservations db)\<rparr>"

section \<open>What a call takes from its surroundings\<close>

text \<open>
  \<^item> \<open>clock k\<close> is the value of the \<open>k\<close>-th \<^verbatim>\<open>new Date()\<close> the call evaluates (from 0);
  \<^item> \<open>LocalTZA t isUTC\<close> is the offset of the host's time zone from UTC in
    milliseconds, as ECMAScript has it: at the time \<open>t\<close> when \<open>isUTC\<close>, and otherwise for
    the local time \<open>t\<close> (a local time that occurs twice, or never, taking the offset
    from before the change);
  \<^item> \<open>others k\<close> is what the concurrent requests do to the store between a read of the
    call and its guarded write (\<open>k = 0\<close>), and between that write and the read that
    follows a missed guard (\<open>k = 1\<close>); a call that runs alone has \<open>others k = id\<close>;
  \<^item> \<open>gen_random_uuid\<close> and \<open>NOW\<close> are the store's defaults for a row inserted by the call.
\<close>

record runtime =
  clock :: "nat \<Rightarrow> timestamp"
  LocalTZA :: "int \<Rightarrow> bool \<Rightarrow> int"
  others :: "nat \<Rightarrow> database \<Rightarrow> database"
  gen_random_uuid :: string
  NOW :: timestamp

text \<open>A call that runs alone on a host whose zone is UTC, with clock \<open>c\<close> and \<open>u\<close> for a new identifier.\<close>

definition alone :: "(nat \<Rightarrow> timestamp) \<Rightarrow> string \<Rightarrow> runtime" where
  "alone c u = \<lparr>clock = c, LocalTZA = (\<lambda>t isUTC. 0), others = (\<lambda>k. id), gen_random_uuid = u, NOW = c 0\<rparr>"

section \<open>Reservations service\<close>

definition as_ReservationResponse :: "Reservation \<Rightarrow> ReservationResponse" where
  "as_ReservationResponse r =
     \<lparr>id_resp = id_res r, item_id_resp = item_id r, customer_id_resp = customer_id r,
      quantity_resp = quantity r, status_resp = status r, created_at_resp = created_at r,
      expires_at_resp = expires_at r, confirmed_at_resp = Some (confirmed_at r),
      cancelled_at_resp = Some (cancelled_at r)\<rparr>"

definition getReservation :: "database \<Rightarrow> string \<Rightarrow> Reservation result" where
  "getReservation db reservationId =
     (case single (filter (\<lambda>r. id_res r = reservationId) (reservations db)) of
        Inl PGRST116 \<Rightarrow>
          Inl \<lparr>statusCode = 404, message = ''Reservation not found'', code = RESERVATION_NOT_FOUND\<rparr>
      | Inl PostgresError \<Rightarrow>
          Inl \<lparr>statusCode = 500, message = ''Failed to fetch reservation'', code = DATABASE_ERROR\<rparr>
      | Inr data \<Rightarrow> Inr data)"

definition confirmReservation ::
  "runtime \<Rightarrow> string \<Rightarrow> database \<Rightarrow> database \<times> ReservationResponse result" where
  "confirmReservation rt reservationId db =
     (case getReservation db reservationId of
        Inl e \<Rightarrow> (db, Inl e)
      | Inr reservation \<Rightarrow>
          if status reservation = CONFIRMED then
            (db, Inr \<lparr>id_resp = id_res reservation, item_id_resp = item_id reservation,
                      customer_id_resp = customer_id reservation,
                      quantity_resp = quantity reservation, status_resp = status reservation,
                      created_at_resp = created_at reservation,
                      expires_at_resp = expires_at reservation,
                      confirmed_at_resp = Some (confirmed_at reservation),
                      cancelled_at_resp = None\<rparr>)
          else if status reservation = CANCELLED then
            (db, Inl \<lparr>statusCode = 409, message = ''Cannot confirm a cancelled reservation'',
                      code = RESERVATION_CANCELLED\<rparr>)
          else if status reservation = EXPIRED then
            (db, Inl \<lparr>statusCode = 409, message = ''Cannot confirm an expired reservation'',
                      code = RESERVATION_EXPIRED\<rparr>)
          else
            let now = clock rt 0; expiresAt = expires_at reservation in
            if now > expiresAt then
              (db, Inl \<lparr>statusCode = 409, message = ''Cannot confirm an expired reservation'',
                        code = RESERVATION_EXPIRED\<rparr>)
            else
              (case update_single
                      (\<lambda>r. id_res r = reservationId \<and> status r = PENDING)
                      (\<lambda>r. r\<lparr>status := CONFIRMED, confirmed_at := Some (clock rt 1)\<rparr>)
                      (others rt 0 db) of
                 (db', Inr data) \<Rightarrow> (db', Inr (as_ReservationResponse data))
               | (db', Inl PGRST116) \<Rightarrow>
                   (case getReservation (others rt 1 db') reservationId of
                      Inl e \<Rightarrow> (others rt 1 db', Inl e)
                    | Inr updated \<Rightarrow>
                        if status updated = CONFIRMED
                        then (others rt 1 db', Inr (as_ReservationResponse updated))
                        else (others rt 1 db',
                              Inl \<lparr>statusCode = 409, message = ''Reservation state changed'',
                                   code = RESERVATION_EXPIRED\<rparr>))
               | (db', Inl PostgresError) \<Rightarrow>
                   (db', Inl \<lparr>statusCode = 500, message = ''Failed to confirm reservation'',
                              code = DATABASE_ERROR\<rparr>)))"

definition cancelReservation ::
  "runtime \<Rightarrow> string \<Rightarrow> database \<Rightarrow> database \<times> ReservationResponse result" where
  "cancelReservation rt reservationId db =
     (case getReservation db reservationId of
        Inl e \<Rightarrow> (db, Inl e)
      | Inr reservation \<Rightarrow>
          if status reservation = CANCELLED then
            (db, Inr \<lparr>id_resp = id_res reservation, item_id_resp = item_id reservation,
                      customer_id_resp = customer_id reservation,
                      quantity_resp = quantity reservation, status_resp = status reservation,
                      created_at_resp = created_at reservation,
                      expires_at_resp = expires_at reservation,
                      confirmed_at_resp = None,
                      cancelled_at_resp = Some (cancelled_at reservation)\<rparr>)
          else if status reservation = EXPIRED then
            (db, Inl \<lparr>statusCode = 409, message = ''Cannot cancel an expired reservation'',
                      code = RESERVATION_EXPIRED\<rparr>)
          else if status reservation = CONFIRMED then
            (db, Inl \<lparr>statusCode = 409, message = ''Cannot cancel a confirmed reservation'',
                      code = RESERVATION_CONFIRMED\<rparr>)
          else
            (case update_single
                    (\<lambda>r. id_res r = reservationId \<and> status r = PENDING)
                    (\<lambda>r. r\<lparr>status := CANCELLED, cancelled_at := Some (clock rt 0)\<rparr>)
                    (others rt 0 db) of
               (db', Inr data) \<Rightarrow> (db', Inr (as_ReservationResponse data))
             | (db', Inl PGRST116) \<Rightarrow>
                 (case getReservation (others rt 1 db') reservationId of
                    Inl e \<Rightarrow> (others rt 1 db', Inl e)
                  | Inr updated \<Rightarrow>
                      if status updated = CANCELLED \<or> status updated = EXPIRED
                      then (others rt 1 db', Inr (as_ReservationResponse updated))
                      else (others rt 1 db',
                            Inl \<lparr>statusCode = 409, message = ''Reservation state changed'',
                                 code = RESERVATION_CONFIRMED\<rparr>))
             | (db', Inl PostgresError) \<Rightarrow>
                 (db', Inl \<lparr>statusCode = 500, message = ''Failed to cancel reservation'',
                            code = DATABASE_ERROR\<rparr>)))"


subsection \<open>The Date arithmetic of the expiry\<close>

text \<open>
  \<^verbatim>\<open>expiresAt.setMinutes(expiresAt.getMinutes() + k)\<close>, by the abstract operations of
  ECMAScript: the time value is moved to local time with the offset at that time, split
  into day, hour, minute, second and millisecond, put together again with the new minute,
  and moved back to UTC with the offset of the new local time. The first argument of the
  functions below is the \<open>LocalTZA\<close> of the host. Clock readings lie far inside the
  range of \<^verbatim>\<open>Date\<close>, where \<^verbatim>\<open>TimeClip\<close> changes nothing.
\<close>

definition Day :: "int \<Rightarrow> int" where "Day t = t div 86400000"
definition HourFromTime :: "int \<Rightarrow> int" where "HourFromTime t = (t div 3600000) mod 24"
definition MinFromTime :: "int \<Rightarrow> int" where "MinFromTime t = (t div 60000) mod 60"
definition SecFromTime :: "int \<Rightarrow> int" where "SecFromTime t = (t div 1000) mod 60"
definition msFromTime :: "int \<Rightarrow> int" where "msFromTime t = t mod 1000"

definition MakeTime :: "int \<Rightarrow> int \<Rightarrow> int \<Rightarrow> int \<Rightarrow> int" where
  "MakeTime hour minute sec ms = hour * 3600000 + minute * 60000 + sec * 1000 + ms"

definition MakeDate :: "int \<Rightarrow> int \<Rightarrow> int" where
  "MakeDate day time = day * 86400000 + time"

definition LocalTime :: "(int \<Rightarrow> bool \<Rightarrow> int) \<Rightarrow> timestamp \<Rightarrow> int" where
  "LocalTime z t = t + z t True"

definition UTC :: "(int \<Rightarrow> bool \<Rightarrow> int) \<Rightarrow> int \<Rightarrow> timestamp" where
  "UTC z t = t - z t False"

definition Date_getMinutes :: "(int \<Rightarrow> bool \<Rightarrow> int) \<Rightarrow> timestamp \<Rightarrow> int" where
  "Date_getMinutes z t = MinFromTime (LocalTime z t)"

definition Date_setMinutes :: "(int \<Rightarrow> bool \<Rightarrow> int) \<Rightarrow> timestamp \<Rightarrow> int \<Rightarrow> timestamp" where
  "Date_setMinutes z t m =
     (let l = LocalTime z t
      in UTC z (MakeDate (Day l) (MakeTime (HourFromTime l) m (SecFromTime l) (msFromTime l))))"

definition RESERVATION_EXPIRY_MINUTES :: int where
  "RESERVATION_EXPIRY_MINUTES = 1"

subsection \<open>Numbers in template literals\<close>

function decimal :: "nat \<Rightarrow> string" where
  "decimal n = (if n < 10 then [''0123456789'' ! n] else decimal (n div 10) @ [''0123456789'' ! (n mod 10)])"
  by pat_completeness auto
termination
  by (relation "measure id") auto

declare decimal.simps [simp del]

text \<open>\<^verbatim>\<open>`${n}`\<close> for an integral number \<open>n\<close> below \<open>10\<^sup>2\<^sup>1\<close> in size.\<close>

definition Number_toString :: "int \<Rightarrow> string" where
  "Number_toString n = (if n < 0 then CHR ''-'' # decimal (nat (- n)) else decimal (nat n))"

subsection \<open>Availability and creation\<close>

text \<open>\<^verbatim>\<open>rows.reduce((sum, r) => sum + r.quantity, 0)\<close>\<close>

definition reduce_quantity :: "Reservation list \<Rightarrow> int" where
  "reduce_quantity rows = foldl (\<lambda>sum r. sum + quantity r) 0 rows"

text \<open>\<^verbatim>\<open>itemExists\<close> of the items service.\<close>

definition itemExists :: "database \<Rightarrow> string \<Rightarrow> bool result" where
  "itemExists db itemId =
     (case single (filter (\<lambda>i. id_item i = itemId) (items db)) of
        Inl PGRST116 \<Rightarrow> Inr False
      | Inl PostgresError \<Rightarrow>
          Inl \<lparr>statusCode = 500, message = ''Failed to check item existence'', code = DATABASE_ERROR\<rparr>
      | Inr data \<Rightarrow> Inr True)"

text \<open>The argument \<open>now\<close> is the value of the \<^verbatim>\<open>new Date()\<close> in the second query.\<close>

definition getAvailableQuantity :: "timestamp \<Rightarrow> string \<Rightarrow> database \<Rightarrow> int result" where
  "getAvailableQuantity now itemId db =
     (case single (filter (\<lambda>i. id_item i = itemId) (items db)) of
        Inl e \<Rightarrow> Inl \<lparr>statusCode = 500, message = ''Failed to fetch item'', code = DATABASE_ERROR\<rparr>
      | Inr item \<Rightarrow>
          let pendingReservations =
                filter (\<lambda>r. item_id r = itemId \<and> status r = PENDING \<and> expires_at r > now)
                  (reservations db);
              confirmedReservations =
                filter (\<lambda>r. item_id r = itemId \<and> status r = CONFIRMED) (reservations db);
              pendingQty = reduce_quantity pendingReservations;
              confirmedQty = reduce_quantity confirmedReservations
          in Inr (total_quantity item - pendingQty - confirmedQty))"

text \<open>
  \<^verbatim>\<open>createReservationSchema\<close>, which every input of \<^verbatim>\<open>createReservation\<close> has passed
  (the format of \<^verbatim>\<open>item_id\<close> apart, identifiers being opaque here).
\<close>

definition createReservationSchema :: "CreateReservationInput \<Rightarrow> bool" where
  "createReservationSchema input \<longleftrightarrow>
     1 \<le> length (customer_id_in input) \<and> length (customer_id_in input) \<le> 255
   \<and> 1 \<le> quantity_in input"

definition createReservation ::
  "runtime \<Rightarrow> CreateReservationInput \<Rightarrow> database \<Rightarrow> database \<times> ReservationResponse result" where
  "createReservation rt input db =
     (case itemExists db (item_id_in input) of
        Inl e \<Rightarrow> (db, Inl e)
      | Inr exists \<Rightarrow>
          if \<not> exists then
            (db, Inl \<lparr>statusCode = 404, message = ''Item not found'', code = ITEM_NOT_FOUND\<rparr>)
          else
            (case getAvailableQuantity (clock rt 0) (item_id_in input) db of
               Inl e \<Rightarrow> (db, Inl e)
             | Inr availableQty \<Rightarrow>
                 if availableQty < quantity_in input then
                   (db, Inl \<lparr>statusCode = 409,
                             message = ''Insufficient available quantity. Available: ''
                               @ Number_toString availableQty @ '', Requested: ''
                               @ Number_toString (quantity_in input),
                             code = INSUFFICIENT_QUANTITY\<rparr>)
                 else
                   let expiresAt =
                         Date_setMinutes (LocalTZA rt) (clock rt 1)
                           (Date_getMinutes (LocalTZA rt) (clock rt 1) + RESERVATION_EXPIRY_MINUTES)
                   in (case insert_reservation
                              \<lparr>id_res = gen_random_uuid rt, item_id = item_id_in input,
                               customer_id = customer_id_in input, quantity = quantity_in input,
                               status = PENDING, created_at = NOW rt, expires_at = expiresAt,
                               confirmed_at = None, cancelled_at = None\<rparr> db of
                         (db', Inl e) \<Rightarrow>
                           (db', Inl \<lparr>statusCode = 500, message = ''Failed to create reservation'',
                                      code = DATABASE_ERROR\<rparr>)
                       | (db', Inr data) \<Rightarrow> (db', Inr (as_ReservationResponse data)))))"

section \<open>Items service\<close>

definition getItemStatus :: "database \<Rightarrow> string \<Rightarrow> ItemStatus result" where
  "getItemStatus db itemId =
     (case single (filter (\<lambda>i. id_item i = itemId) (items db)) of
        Inl PGRST116 \<Rightarrow>
          Inl \<lparr>statusCode = 404, message = ''Item not found'', code = ITEM_NOT_FOUND\<rparr>
      | Inl PostgresError \<Rightarrow>
          Inl \<lparr>statusCode = 500, message = ''Failed to fetch item'', code = DATABASE_ERROR\<rparr>
      | Inr item \<Rightarrow>
          let pendingReservations =
                filter (\<lambda>r. item_id r = itemId \<and> status r = PENDING) (reservations db);
              confirmedReservations =
                filter (\<lambda>r. item_id r = itemId \<and> status r = CONFIRMED) (reservations db);
              reservedQuantity = reduce_quantity pendingReservations;
              confirmedQuantity = reduce_quantity confirmedReservations;
              availableQuantity = total_quantity item - reservedQuantity - confirmedQuantity
          in Inr \<lparr>id_st = id_item item, name_st = name item,
                  total_quantity_st = total_quantity item,
                  available_quantity = availableQuantity,
                  reserved_quantity = reservedQuantity,
                  confirmed_quantity = confirmedQuantity,
                  created_at_st = created_at_item item, updated_at_st = updated_at item\<rparr>)"

section \<open>Maintenance service\<close>

definition expireReservations ::
  "runtime \<Rightarrow> database \<Rightarrow> database \<times> ExpireReservationsResult result" where
  "expireReservations rt db =
     (let now = clock rt 0;
          expiredReservations =
            filter (\<lambda>r. status r = PENDING \<and> expires_at r < now) (reservations db)
      in if length expiredReservations = 0 then
           (db, Inr \<lparr>expired_count = 0, expired_reservation_ids = []\<rparr>)
         else
           let expiredIds = map id_res expiredReservations;
               db' = update_where (\<lambda>r. id_res r \<in> set expiredIds \<and> status r = PENDING)
                       (\<lambda>r. r\<lparr>status := EXPIRED\<rparr>) (others rt 0 db)
           in (db', Inr \<lparr>expired_count = length expiredIds,
                         expired_reservation_ids = expiredIds\<rparr>))"


section \<open>Example stores\<close>

definition item_a :: string where "item_a = ''00000000-0000-4000-8000-00000000000a''"
definition res_1 :: string where "res_1 = ''00000000-0000-4000-8000-000000000001''"
definition res_2 :: string where "res_2 = ''00000000-0000-4000-8000-000000000002''"
definition res_3 :: string where "res_3 = ''00000000-0000-4000-8000-000000000003''"
definition res_4 :: string where "res_4 = ''00000000-0000-4000-8000-000000000004''"

definition widget :: Item where
  "widget = \<lparr>id_item = item_a, name = ''Widget'', total_quantity = 5,
             created_at_item = 1700000000000, updated_at = 1700000000000\<rparr>"

definition row_1 :: Reservation where
  "row_1 = \<lparr>id_res = res_1, item_id = item_a, customer_id = ''alice'', quantity = 2,
            status = PENDING, created_at = 1700000000000, expires_at = 1700000060000,
            confirmed_at = None, cancelled_at = None\<rparr>"

definition row_2 :: Reservation where
  "row_2 = \<lparr>id_res = res_2, item_id = item_a, customer_id = ''bob'', quantity = 1,
            status = CONFIRMED, created_at = 1700000001000, expires_at = 1700000061000,
            confirmed_at = Some 1700000002000, cancelled_at = None\<rparr>"

definition row_3 :: Reservation where
  "row_3 = \<lparr>id_res = res_3, item_id = item_a, customer_id = ''carol'', quantity = 1,
            status = CANCELLED, created_at = 1700000003000, expires_at = 1700000063000,
            confirmed_at = None, cancelled_at = Some 1700000004000\<rparr>"

definition row_4 :: Reservation where
  "row_4 = \<lparr>id_res = res_4, item_id = item_a, customer_id = ''dave'', quantity = 1,
            status = EXPIRED, created_at = 1699999000000, expires_at = 1699999060000,
            confirmed_at = None, cancelled_at = None\<rparr>"

text \<open>One item of five units with a reservation in each status.\<close>

definition ledger :: database where
  "ledger = \<lparr>items = [widget], reservations = [row_1, row_2, row_3, row_4]\<rparr>"

definition res_5 :: string where "res_5 = ''00000000-0000-4000-8000-000000000005''"

definition order :: "string \<Rightarrow> int \<Rightarrow> CreateReservationInput" where
  "order customer q = \<lparr>item_id_in = item_a, customer_id_in = customer, quantity_in = q\<rparr>"

text \<open>The row that erin's order of two units adds to the ledger at 1700000030000.\<close>

definition row_5 :: Reservation where
  "row_5 = \<lparr>id_res = res_5, item_id = item_a, customer_id = ''erin'', quantity = 2,
            status = PENDING, created_at = 1700000030000, expires_at = 1700000090000,
            confirmed_at = None, cancelled_at = None\<rparr>"

section \<open>Hosts and their time zones\<close>

text \<open>
  The host keeps its offset across the minute that \<open>createReservation\<close> adds: the offset
  it gives to the new local time is the offset it has at the clock reading.
\<close>

definition keeps_offset :: "runtime \<Rightarrow> bool" where
  "keeps_offset rt \<longleftrightarrow>
     LocalTZA rt (clock rt 1 + LocalTZA rt (clock rt 1) True + 60000) False
       = LocalTZA rt (clock rt 1) True"

text \<open>
  The zone \<^verbatim>\<open>America/New_York\<close> around 2 November 2025, when at 06:00:00 UTC
  (1762063200000) the clocks go back from 02:00 at four hours behind UTC to 01:00 at five
  hours behind. The local times from 01:00 to 02:00 of that day occur twice and take the
  offset from before the change.
\<close>

definition New_York :: "int \<Rightarrow> bool \<Rightarrow> int" where
  "New_York t isUTC =
     (if isUTC then (if t < 1762063200000 then - 14400000 else - 18000000)
      else (if t < 1762063200000 - 14400000 then - 14400000 else - 18000000))"

definition in_New_York :: "runtime \<Rightarrow> runtime" where
  "in_New_York rt = rt\<lparr>LocalTZA := New_York\<rparr>"

section \<open>The error kinds of the specification\<close>

text \<open>
  The specification names its error kinds in its section 7. Each code of the program
  stands for the kind of the same name; two codes have no kind there.
\<close>

datatype spec_ErrorKind =
    ItemNotFound | ReservationNotFound | InsufficientQuantity | ReservationExpired
  | ReservationCancelled | ReservationConfirmed | ReservationStateChanged
  | ValidationError | DatabaseError | InternalServerError

fun spec_kind :: "ErrorCode \<Rightarrow> spec_ErrorKind option" where
  "spec_kind ITEM_NOT_FOUND = Some ItemNotFound"
| "spec_kind RESERVATION_NOT_FOUND = Some ReservationNotFound"
| "spec_kind INSUFFICIENT_QUANTITY = Some InsufficientQuantity"
| "spec_kind RESERVATION_EXPIRED = Some ReservationExpired"
| "spec_kind RESERVATION_CANCELLED = Some ReservationCancelled"
| "spec_kind RESERVATION_CONFIRMED = Some ReservationConfirmed"
| "spec_kind VALIDATION_ERROR = Some ValidationError"
| "spec_kind DATABASE_ERROR = Some DatabaseError"
| "spec_kind INTERNAL_SERVER_ERROR = Some InternalServerError"
| "spec_kind NOT_FOUND = None"
| "spec_kind TOO_MANY_REQUESTS = None"

section \<open>Concurrent requests\<close>

text \<open>A call during which \<open>f\<close> is done to the store between its read and its guarded write.\<close>

definition racing :: "(database \<Rightarrow> database) \<Rightarrow> runtime \<Rightarrow> runtime" where
  "racing f rt = rt\<lparr>others := (\<lambda>k. if k = 0 then f else id)\<rparr>"

text \<open>A rival request that cancels, or confirms, reservation \<open>res_1\<close> a second earlier.\<close>

definition rival_cancel :: "database \<Rightarrow> database" where
  "rival_cancel db = fst (cancelReservation (alone (\<lambda>k. 1700000029000) res_2) res_1 db)"

definition rival_confirm :: "database \<Rightarrow> database" where
  "rival_confirm db = fst (confirmReservation (alone (\<lambda>k. 1700000029000) res_2) res_1 db)"

text \<open>A rival request that cancels \<open>res_1\<close> after its expiry, just before a sweep writes.\<close>

definition late_cancel :: "database \<Rightarrow> database" where
  "late_cancel db = fst (cancelReservation (alone (\<lambda>k. 1700000099000) res_2) res_1 db)"

section \<open>The accounting contract of the specification\<close>

text \<open>
  Section 3 of the specification: for every item, \<open>total_quantity\<close> is at least the sum
  of \<open>quantity\<close> over its PENDING reservations whose \<open>expires_at\<close> is strictly in the
  future, plus the sum over its CONFIRMED reservations.
\<close>

definition live_pending_quantity :: "timestamp \<Rightarrow> string \<Rightarrow> database \<Rightarrow> int" where
  "live_pending_quantity now itemId db =
     (\<Sum>r\<leftarrow>filter (\<lambda>r. item_id r = itemId \<and> status r = PENDING \<and> expires_at r > now)
                  (reservations db). quantity r)"

definition confirmed_total :: "string \<Rightarrow> database \<Rightarrow> int" where
  "confirmed_total itemId db =
     (\<Sum>r\<leftarrow>filter (\<lambda>r. item_id r = itemId \<and> status r = CONFIRMED) (reservations db). quantity r)"

definition accounting_invariant :: "timestamp \<Rightarrow> database \<Rightarrow> bool" where
  "accounting_invariant now db =
     list_all (\<lambda>i. total_quantity i \<ge>
                  live_pending_quantity now (id_item i) db + confirmed_total (id_item i) db)
       (items db)"

text \<open>What one reservation counts against an item at a time: its quantity if it is a live hold
  or confirmed, nothing otherwise.\<close>

definition held :: "timestamp \<Rightarrow> string \<Rightarrow> Reservation \<Rightarrow> int" where
  "held now itemId r =
     (if item_id r = itemId \<and> status r = PENDING \<and> expires_at r > now then quantity r else 0)
   + (if item_id r = itemId \<and> status r = CONFIRMED then quantity r else 0)"

text \<open>\<^verbatim>\<open>CHECK (quantity > 0)\<close> on every stored reservation.\<close>

definition quantities_positive :: "database \<Rightarrow> bool" where
  "quantities_positive db = list_all (\<lambda>r. 0 < quantity r) (reservations db)"

section \<open>A shop with one item of two units\<close>

definition item_b :: string where "item_b = ''00000000-0000-4000-8000-00000000000b''"

definition gadget :: Item where
  "gadget = \<lparr>id_item = item_b, name = ''Gadget'', total_quantity = 2,
             created_at_item = 1699990000000, updated_at = 1699990000000\<rparr>"

definition shop :: database where
  "shop = \<lparr>items = [gadget], reservations = []\<rparr>"

definition request :: "string \<Rightarrow> CreateReservationInput" where
  "request customer = \<lparr>item_id_in = item_b, customer_id_in = customer, quantity_in = 2\<rparr>"

definition hold_1 :: Reservation where
  "hold_1 = \<lparr>id_res = res_1, item_id = item_b, customer_id = ''alice'', quantity = 2,
             status = PENDING, created_at = 1700000000000, expires_at = 1700000060000,
             confirmed_at = None, cancelled_at = None\<rparr>"

text \<open>Alice's hold of two units, created at \<open>t\<close> and expiring at \<open>e\<close>.\<close>

definition hold_from :: "timestamp \<Rightarrow> timestamp \<Rightarrow> Reservation" where
  "hold_from t e = \<lparr>id_res = res_1, item_id = item_b, customer_id = ''alice'', quantity = 2,
                    status = PENDING, created_at = t, expires_at = e,
                    confirmed_at = None, cancelled_at = None\<rparr>"

definition hold_2 :: "timestamp \<Rightarrow> Reservation" where
  "hold_2 t = \<lparr>id_res = res_2, item_id = item_b, customer_id = ''bob'', quantity = 2,
               status = PENDING, created_at = t, expires_at = t + 60000,
               confirmed_at = None, cancelled_at = None\<rparr>"

section \<open>Facts about the store\<close>

lemmas ids = item_a_def res_1_def res_2_def res_3_def res_4_def
lemmas rows = widget_def row_1_def row_2_def row_3_def row_4_def

lemma single_Inr_iff: "single xs = Inr x \<longleftrightarrow> xs = [x]"
  by (cases xs rule: single.cases) auto

lemma getReservation_Inr_iff:
  "getReservation db rid = Inr r \<longleftrightarrow> filter (\<lambda>x. id_res x = rid) (reservations db) = [r]"
  by (auto simp: getReservation_def single_Inr_iff split: sum.splits PostgrestError.splits)

lemma filter_id_status:
  assumes "filter (\<lambda>x. id_res x = rid) xs = [r]"
  shows "filter (\<lambda>x. id_res x = rid \<and> status x = s) xs = (if status r = s then [r] else [])"
proof -
  have "filter (\<lambda>x. id_res x = rid \<and> status x = s) xs
        = filter (\<lambda>x. status x = s) (filter (\<lambda>x. id_res x = rid) xs)"
    by (simp add: conj_commute)
  with assms show ?thesis by simp
qed

lemma filter_singletonD: "filter P xs = [r] \<Longrightarrow> P r"
  by (metis filter_set list.set_intros(1) mem_Collect_eq set_filter)

lemma filter_id_map:
  assumes "filter (\<lambda>x. id_res x = rid) xs = [r]" and "\<And>x. id_res (g x) = id_res x"
  shows "filter (\<lambda>x. id_res x = rid) (map g xs) = [g r]"
proof -
  have "filter (\<lambda>x. id_res x = rid) (map g xs) = map g (filter (\<lambda>x. id_res x = rid) xs)"
    by (simp add: filter_map o_def assms(2))
  with assms(1) show ?thesis by simp
qed

lemma filter_other_map:
  assumes "\<And>x. id_res (g x) = id_res x" and "\<And>x. id_res x \<noteq> rid \<Longrightarrow> g x = x"
  shows "filter (\<lambda>x. id_res x \<noteq> rid) (map g xs) = filter (\<lambda>x. id_res x \<noteq> rid) xs"
  by (induction xs) (auto simp: assms)

lemma update_single_pending:
  assumes "getReservation db rid = Inr r" and "status r = PENDING"
  shows "update_single (\<lambda>x. id_res x = rid \<and> status x = PENDING) f db =
           (db\<lparr>reservations :=
                 map (\<lambda>x. if id_res x = rid \<and> status x = PENDING then f x else x) (reservations db)\<rparr>,
            Inr (f r))"
  using assms
  by (simp add: update_single_def getReservation_Inr_iff filter_id_status)

lemma rival_cancel_ledger:
  "rival_cancel ledger = ledger\<lparr>reservations :=
      [row_1\<lparr>status := CANCELLED, cancelled_at := Some 1700000029000\<rparr>, row_2, row_3, row_4]\<rparr>"
  by (simp add: rival_cancel_def cancelReservation_def getReservation_def update_single_def
      as_ReservationResponse_def alone_def ledger_def rows ids)

lemma rival_confirm_ledger:
  "rival_confirm ledger = ledger\<lparr>reservations :=
      [row_1\<lparr>status := CONFIRMED, confirmed_at := Some 1700000029000\<rparr>, row_2, row_3, row_4]\<rparr>"
  by (simp add: rival_confirm_def confirmReservation_def getReservation_def update_single_def
      as_ReservationResponse_def alone_def ledger_def rows ids)

subsection \<open>Dates and sums\<close>

lemma split_time:
  fixes l :: int
  shows "(l div 86400000) * 86400000 + ((l div 3600000) mod 24) * 3600000
         + ((l div 60000) mod 60) * 60000 + ((l div 1000) mod 60) * 1000 + l mod 1000 = l"
proof -
  define a where "a = l div 1000"
  define b where "b = a div 60"
  define c where "c = b div 60"
  define d where "d = c div 24"
  have b: "l div 60000 = b"
    unfolding b_def a_def by (simp add: zdiv_zmult2_eq [symmetric])
  have c: "l div 3600000 = c"
    unfolding c_def b_def a_def by (simp add: zdiv_zmult2_eq [symmetric])
  have d: "l div 86400000 = d"
    unfolding d_def c_def b_def a_def by (simp add: zdiv_zmult2_eq [symmetric])
  have 1: "l = 1000 * a + l mod 1000" unfolding a_def by simp
  have 2: "a = 60 * b + a mod 60" unfolding b_def by simp
  have 3: "b = 60 * c + b mod 60" unfolding c_def by simp
  have 4: "c = 24 * d + c mod 24" unfolding d_def by simp
  show ?thesis
    unfolding b c d a_def [symmetric] using 1 2 3 4 by linarith
qed

lemma MakeDate_next_minutes:
  "MakeDate (Day l) (MakeTime (HourFromTime l) (MinFromTime l + k) (SecFromTime l) (msFromTime l))
     = l + k * 60000"
proof -
  have "MakeDate (Day l) (MakeTime (HourFromTime l) (MinFromTime l + k) (SecFromTime l) (msFromTime l))
        = ((l div 86400000) * 86400000 + ((l div 3600000) mod 24) * 3600000
           + ((l div 60000) mod 60) * 60000 + ((l div 1000) mod 60) * 1000 + l mod 1000) + k * 60000"
    by (simp add: MakeDate_def MakeTime_def Day_def HourFromTime_def MinFromTime_def
        SecFromTime_def msFromTime_def algebra_simps)
  then show ?thesis
    by (simp only: split_time)
qed

lemma setMinutes_local:
  "Date_setMinutes z t (Date_getMinutes z t + k) =
     t + z t True + k * 60000 - z (t + z t True + k * 60000) False"
  by (simp add: Date_setMinutes_def Date_getMinutes_def LocalTime_def UTC_def Let_def
      MakeDate_next_minutes)

lemma setMinutes_getMinutes:
  assumes "z (t + z t True + k * 60000) False = z t True"
  shows "Date_setMinutes z t (Date_getMinutes z t + k) = t + k * 60000"
  using assms by (simp add: setMinutes_local)

lemma reduce_quantity_sum: "reduce_quantity rows = sum_list (map quantity rows)"
proof -
  have "foldl (\<lambda>sum r. sum + quantity r) a rows = a + sum_list (map quantity rows)" for a
    by (induction rows arbitrary: a) simp_all
  then show ?thesis by (simp add: reduce_quantity_def)
qed

lemma sum_list_filter_split:
  fixes f :: "'a \<Rightarrow> int"
  shows "sum_list (map f (filter P xs)) =
         sum_list (map f (filter (\<lambda>x. P x \<and> Q x) xs)) + sum_list (map f (filter (\<lambda>x. P x \<and> \<not> Q x) xs))"
  by (induction xs) simp_all

subsection \<open>Items and the examples\<close>

lemma itemExists_iff:
  "itemExists db itemId = Inr (\<exists>item. filter (\<lambda>i. id_item i = itemId) (items db) = [item])"
  by (cases "filter (\<lambda>i. id_item i = itemId) (items db)" rule: single.cases)
     (simp_all add: itemExists_def)

lemma getAvailableQuantity_sum:
  assumes "filter (\<lambda>i. id_item i = itemId) (items db) = [item]"
  shows "getAvailableQuantity now itemId db =
           Inr (total_quantity item
                - sum_list (map quantity (filter (\<lambda>r. item_id r = itemId \<and> status r = PENDING \<and> expires_at r > now) (reservations db)))
                - sum_list (map quantity (filter (\<lambda>r. item_id r = itemId \<and> status r = CONFIRMED) (reservations db))))"
  using assms by (simp add: getAvailableQuantity_def reduce_quantity_sum Let_def)

lemma accepted_row_iff:
  "accepted_row db r = Some r' \<longleftrightarrow>
     (\<exists>c. VARCHAR_255 (customer_id r) = Some c \<and> r' = r\<lparr>customer_id := c\<rparr>
        \<and> INTEGER (quantity r) \<and> reservations_constraints db (r\<lparr>customer_id := c\<rparr>))"
  by (auto simp: accepted_row_def split: option.splits)

lemma VARCHAR_255_schema:
  assumes "createReservationSchema input"
  shows "VARCHAR_255 (customer_id_in input) =
           (if CHR 0x00 \<in> set (customer_id_in input) then None else Some (customer_id_in input))"
  using assms by (simp add: VARCHAR_255_def createReservationSchema_def)

lemmas evals = createReservation_def itemExists_def getAvailableQuantity_def reduce_quantity_def
  insert_reservation_def accepted_row_def VARCHAR_255_def INTEGER_def reservations_constraints_def
  TRIM_def setMinutes_local
  RESERVATION_EXPIRY_MINUTES_def as_ReservationResponse_def Number_toString_def decimal.simps
  getItemStatus_def getReservation_def update_single_def alone_def order_def Let_def

lemma ledger_item: "filter (\<lambda>i. id_item i = item_a) (items ledger) = [widget]"
  by (simp add: ledger_def rows ids)

lemma ledger_available: "getAvailableQuantity 1700000030000 item_a ledger = Inr 2"
  by (simp add: getAvailableQuantity_def reduce_quantity_def ledger_def rows ids)

lemma create_erin:
  "createReservation (alone (\<lambda>k. 1700000030000) res_5) (order ''erin'' 2) ledger =
     (ledger\<lparr>reservations := [row_1, row_2, row_3, row_4, row_5]\<rparr>, Inr (as_ReservationResponse row_5))"
  by (simp add: evals ledger_def rows ids res_5_def row_5_def)

lemmas shop_defs = shop_def gadget_def hold_1_def hold_2_def request_def item_b_def

lemma late_cancel_ledger:
  "late_cancel ledger = ledger\<lparr>reservations :=
      [row_1\<lparr>status := CANCELLED, cancelled_at := Some 1700000099000\<rparr>, row_2, row_3, row_4]\<rparr>"
  by (simp add: late_cancel_def cancelReservation_def getReservation_def update_single_def
      as_ReservationResponse_def alone_def ledger_def rows ids)

section \<open>Reservation lifecycle\<close>

text \<open>
  C5. Confirm and cancel are idempotent on their own terminal state. A reservation that is
  already CONFIRMED is returned by \<open>confirmReservation\<close> with the \<open>confirmed_at\<close> it
  has, and the store that comes back is the store that went in: nothing is written, so no
  quantity is counted twice. (The answer is built from eight properties and has no
  \<open>cancelled_at\<close>.) The same holds for \<open>cancelReservation\<close> on a CANCELLED
  reservation, whose answer has no \<open>confirmed_at\<close>. Neither depends on the clock or
  on what other requests do.
\<close>

theorem confirm_cancel_idempotent:
  "(getReservation db rid = Inr r \<and> status r = CONFIRMED \<longrightarrow>
      confirmReservation rt rid db =
        (db, Inr \<lparr>id_resp = id_res r, item_id_resp = item_id r, customer_id_resp = customer_id r,
                  quantity_resp = quantity r, status_resp = CONFIRMED,
                  created_at_resp = created_at r, expires_at_resp = expires_at r,
                  confirmed_at_resp = Some (confirmed_at r), cancelled_at_resp = None\<rparr>))
 \<and> (getReservation db rid = Inr r \<and> status r = CANCELLED \<longrightarrow>
      cancelReservation rt rid db =
        (db, Inr \<lparr>id_resp = id_res r, item_id_resp = item_id r, customer_id_resp = customer_id r,
                  quantity_resp = quantity r, status_resp = CANCELLED,
                  created_at_resp = created_at r, expires_at_resp = expires_at r,
                  confirmed_at_resp = None, cancelled_at_resp = Some (cancelled_at r)\<rparr>))"
  by (simp add: confirmReservation_def cancelReservation_def)

theorem confirm_cancel_idempotent_witness:
  "(getReservation ledger res_2 = Inr row_2 \<and> status row_2 = CONFIRMED)
   \<and> confirmReservation (alone (\<lambda>k. 1700000030000) res_1) res_2 ledger =
        (ledger, Inr \<lparr>id_resp = res_2, item_id_resp = item_a, customer_id_resp = ''bob'',
                  quantity_resp = 1, status_resp = CONFIRMED,
                  created_at_resp = 1700000001000, expires_at_resp = 1700000061000,
                  confirmed_at_resp = Some (Some 1700000002000), cancelled_at_resp = None\<rparr>)
   \<and> (getReservation ledger res_3 = Inr row_3 \<and> status row_3 = CANCELLED)
   \<and> cancelReservation (alone (\<lambda>k. 1700000030000) res_1) res_3 ledger =
        (ledger, Inr \<lparr>id_resp = res_3, item_id_resp = item_a, customer_id_resp = ''carol'',
                  quantity_resp = 1, status_resp = CANCELLED,
                  created_at_resp = 1700000003000, expires_at_resp = 1700000063000,
                  confirmed_at_resp = None, cancelled_at_resp = Some (Some 1700000004000)\<rparr>)"
proof -
  have a: "getReservation ledger res_2 = Inr row_2 \<and> status row_2 = CONFIRMED"
    by (simp add: getReservation_def ledger_def rows ids)
  have b: "getReservation ledger res_3 = Inr row_3 \<and> status row_3 = CANCELLED"
    by (simp add: getReservation_def ledger_def rows ids)
  show ?thesis
    using a b
      confirm_cancel_idempotent [of ledger res_2 row_2 "alone (\<lambda>k. 1700000030000) res_1"]
      confirm_cancel_idempotent [of ledger res_3 row_3 "alone (\<lambda>k. 1700000030000) res_1"]
    by (simp add: rows)
qed

text \<open>
  C6. An attempt across states fails with its own error and writes nothing: confirming a
  CANCELLED reservation fails with \<open>RESERVATION_CANCELLED\<close>, confirming an EXPIRED one
  with \<open>RESERVATION_EXPIRED\<close>, cancelling an EXPIRED one with \<open>RESERVATION_EXPIRED\<close>
  and cancelling a CONFIRMED one with \<open>RESERVATION_CONFIRMED\<close>, each with status 409;
  the store that comes back is the store that went in.
\<close>

theorem cross_state_errors:
  assumes "getReservation db rid = Inr r"
  shows "(status r = CANCELLED \<longrightarrow>
           confirmReservation rt rid db =
             (db, Inl \<lparr>statusCode = 409, message = ''Cannot confirm a cancelled reservation'',
                       code = RESERVATION_CANCELLED\<rparr>))
       \<and> (status r = EXPIRED \<longrightarrow>
           confirmReservation rt rid db =
             (db, Inl \<lparr>statusCode = 409, message = ''Cannot confirm an expired reservation'',
                       code = RESERVATION_EXPIRED\<rparr>))
       \<and> (status r = EXPIRED \<longrightarrow>
           cancelReservation rt rid db =
             (db, Inl \<lparr>statusCode = 409, message = ''Cannot cancel an expired reservation'',
                       code = RESERVATION_EXPIRED\<rparr>))
       \<and> (status r = CONFIRMED \<longrightarrow>
           cancelReservation rt rid db =
             (db, Inl \<lparr>statusCode = 409, message = ''Cannot cancel a confirmed reservation'',
                       code = RESERVATION_CONFIRMED\<rparr>))"
  using assms by (simp add: confirmReservation_def cancelReservation_def)

theorem cross_state_errors_witness:
  "(getReservation ledger res_3 = Inr row_3 \<and> status row_3 = CANCELLED)
   \<and> confirmReservation (alone (\<lambda>k. 1700000030000) res_1) res_3 ledger =
       (ledger, Inl \<lparr>statusCode = 409, message = ''Cannot confirm a cancelled reservation'',
                     code = RESERVATION_CANCELLED\<rparr>)
   \<and> (getReservation ledger res_4 = Inr row_4 \<and> status row_4 = EXPIRED)
   \<and> confirmReservation (alone (\<lambda>k. 1700000030000) res_1) res_4 ledger =
       (ledger, Inl \<lparr>statusCode = 409, message = ''Cannot confirm an expired reservation'',
                     code = RESERVATION_EXPIRED\<rparr>)
   \<and> cancelReservation (alone (\<lambda>k. 1700000030000) res_1) res_4 ledger =
       (ledger, Inl \<lparr>statusCode = 409, message = ''Cannot cancel an expired reservation'',
                     code = RESERVATION_EXPIRED\<rparr>)
   \<and> (getReservation ledger res_2 = Inr row_2 \<and> status row_2 = CONFIRMED)
   \<and> cancelReservation (alone (\<lambda>k. 1700000030000) res_1) res_2 ledger =
       (ledger, Inl \<lparr>statusCode = 409, message = ''Cannot cancel a confirmed reservation'',
                     code = RESERVATION_CONFIRMED\<rparr>)"
proof -
  have a: "getReservation ledger res_3 = Inr row_3 \<and> status row_3 = CANCELLED"
    by (simp add: getReservation_def ledger_def rows ids)
  have b: "getReservation ledger res_4 = Inr row_4 \<and> status row_4 = EXPIRED"
    by (simp add: getReservation_def ledger_def rows ids)
  have c: "getReservation ledger res_2 = Inr row_2 \<and> status row_2 = CONFIRMED"
    by (simp add: getReservation_def ledger_def rows ids)
  show ?thesis
    using a b c
      cross_state_errors [of ledger res_3 row_3 "alone (\<lambda>k. 1700000030000) res_1"]
      cross_state_errors [of ledger res_4 row_4 "alone (\<lambda>k. 1700000030000) res_1"]
      cross_state_errors [of ledger res_2 row_2 "alone (\<lambda>k. 1700000030000) res_1"]
    by simp
qed

text \<open>
  C3, as the code has it. A PENDING reservation whose \<open>expires_at\<close> is strictly before
  the clock reading is refused by \<open>confirmReservation\<close> with \<open>RESERVATION_EXPIRED\<close>
  (409), and the store is left as it was. \<open>cancelReservation\<close> never compares
  \<open>expires_at\<close> with the clock: run alone on the same reservation it succeeds, the
  row becomes CANCELLED with \<open>cancelled_at\<close> the clock reading, and no other row and
  no item changes.
\<close>

theorem stale_pending_confirm_cancel:
  assumes "getReservation db rid = Inr r" and "status r = PENDING"
    and "expires_at r < clock rt 0"
  shows "confirmReservation rt rid db =
           (db, Inl \<lparr>statusCode = 409, message = ''Cannot confirm an expired reservation'',
                     code = RESERVATION_EXPIRED\<rparr>)
       \<and> (others rt 0 = id \<longrightarrow>
            snd (cancelReservation rt rid db) =
              Inr (as_ReservationResponse (r\<lparr>status := CANCELLED, cancelled_at := Some (clock rt 0)\<rparr>))
          \<and> getReservation (fst (cancelReservation rt rid db)) rid =
              Inr (r\<lparr>status := CANCELLED, cancelled_at := Some (clock rt 0)\<rparr>)
          \<and> filter (\<lambda>x. id_res x \<noteq> rid) (reservations (fst (cancelReservation rt rid db))) =
              filter (\<lambda>x. id_res x \<noteq> rid) (reservations db)
          \<and> items (fst (cancelReservation rt rid db)) = items db)"
proof -
  let ?f = "\<lambda>x. x\<lparr>status := CANCELLED, cancelled_at := Some (clock rt 0)\<rparr>"
  let ?g = "\<lambda>x. if id_res x = rid \<and> status x = PENDING then ?f x else x"
  have confirm: "confirmReservation rt rid db =
           (db, Inl \<lparr>statusCode = 409, message = ''Cannot confirm an expired reservation'',
                     code = RESERVATION_EXPIRED\<rparr>)"
    using assms by (simp add: confirmReservation_def)
  have sel: "filter (\<lambda>x. id_res x = rid) (reservations db) = [r]"
    using assms(1) by (simp add: getReservation_Inr_iff)
  have cancel: "cancelReservation rt rid db = (db\<lparr>reservations := map ?g (reservations db)\<rparr>,
                  Inr (as_ReservationResponse (?f r)))" if "others rt 0 = id"
    using assms(1,2) that update_single_pending [OF assms(1,2), of ?f]
    by (simp add: cancelReservation_def)
  have reread: "filter (\<lambda>x. id_res x = rid) (map ?g (reservations db)) = [?f r]"
    using filter_id_map [OF sel, of ?g] assms(2) filter_singletonD [OF sel]
    by simp
  have rest: "filter (\<lambda>x. id_res x \<noteq> rid) (map ?g (reservations db)) =
              filter (\<lambda>x. id_res x \<noteq> rid) (reservations db)"
    by (rule filter_other_map) auto
  show ?thesis
    using confirm cancel reread rest by (simp add: getReservation_Inr_iff)
qed

theorem stale_pending_confirm_cancel_witness:
  "(getReservation ledger res_1 = Inr row_1 \<and> status row_1 = PENDING
      \<and> expires_at row_1 < clock (alone (\<lambda>k. 1700000100000) res_2) 0
      \<and> others (alone (\<lambda>k. 1700000100000) res_2) 0 = id)
   \<and> confirmReservation (alone (\<lambda>k. 1700000100000) res_2) res_1 ledger =
       (ledger, Inl \<lparr>statusCode = 409, message = ''Cannot confirm an expired reservation'',
                     code = RESERVATION_EXPIRED\<rparr>)
   \<and> snd (cancelReservation (alone (\<lambda>k. 1700000100000) res_2) res_1 ledger) =
       Inr (as_ReservationResponse (row_1\<lparr>status := CANCELLED, cancelled_at := Some 1700000100000\<rparr>))
   \<and> getReservation (fst (cancelReservation (alone (\<lambda>k. 1700000100000) res_2) res_1 ledger)) res_1 =
       Inr (row_1\<lparr>status := CANCELLED, cancelled_at := Some 1700000100000\<rparr>)"
proof -
  have a: "getReservation ledger res_1 = Inr row_1"
    by (simp add: getReservation_def ledger_def rows ids)
  have b: "status row_1 = PENDING"
    by (simp add: rows)
  have c: "expires_at row_1 < clock (alone (\<lambda>k. 1700000100000) res_2) 0"
    by (simp add: rows alone_def)
  have d: "others (alone (\<lambda>k. 1700000100000) res_2) 0 = id"
    by (simp add: alone_def)
  have e: "clock (alone (\<lambda>k. 1700000100000) res_2) 0 = 1700000100000"
    by (simp add: alone_def)
  show ?thesis
    using a b c d stale_pending_confirm_cancel [OF a b c]
    by (simp only: e simp_thms)
qed

text \<open>
  The claim as stated fails for cancel: reservation \<open>res_1\<close> of the ledger is PENDING
  and forty seconds past its expiry, and \<open>cancelReservation\<close> cancels it.
\<close>

theorem stale_pending_cancel_counterexample:
  "getReservation ledger res_1 = Inr row_1 \<and> status row_1 = PENDING
   \<and> expires_at row_1 < 1700000100000
   \<and> cancelReservation (alone (\<lambda>k. 1700000100000) res_2) res_1 ledger =
       (ledger\<lparr>reservations :=
                 [row_1\<lparr>status := CANCELLED, cancelled_at := Some 1700000100000\<rparr>,
                  row_2, row_3, row_4]\<rparr>,
        Inr \<lparr>id_resp = res_1, item_id_resp = item_a, customer_id_resp = ''alice'',
             quantity_resp = 2, status_resp = CANCELLED, created_at_resp = 1700000000000,
             expires_at_resp = 1700000060000, confirmed_at_resp = Some None,
             cancelled_at_resp = Some (Some 1700000100000)\<rparr>)"
  by (simp add: cancelReservation_def getReservation_def update_single_def
      as_ReservationResponse_def alone_def ledger_def rows ids)

text \<open>
  C4, as the code has it. When the guarded update of \<open>confirmReservation\<close> matches no
  row (a rival request changed the reservation after it was read), the reservation is read
  again: if it is CONFIRMED by then it is returned as a success; for any other status the
  call fails with status 409 and message ``Reservation state changed'', under the code
  \<open>RESERVATION_EXPIRED\<close>. The program has no code of its own for a changed state.
\<close>

theorem confirm_guard_missed:
  assumes "getReservation db rid = Inr r" and "status r = PENDING"
    and "\<not> clock rt 0 > expires_at r"
    and "filter (\<lambda>x. id_res x = rid \<and> status x = PENDING) (reservations (others rt 0 db)) = []"
    and "getReservation (others rt 1 (others rt 0 db)) rid = Inr u"
  shows "confirmReservation rt rid db =
           (others rt 1 (others rt 0 db),
            if status u = CONFIRMED then Inr (as_ReservationResponse u)
            else Inl \<lparr>statusCode = 409, message = ''Reservation state changed'',
                      code = RESERVATION_EXPIRED\<rparr>)"
  using assms by (simp add: confirmReservation_def update_single_def)

theorem confirm_guard_missed_witness:
  "confirmReservation (racing rival_cancel (alone (\<lambda>k. 1700000030000) res_2)) res_1 ledger =
     (rival_cancel ledger,
      Inl \<lparr>statusCode = 409, message = ''Reservation state changed'', code = RESERVATION_EXPIRED\<rparr>)
   \<and> confirmReservation (racing rival_confirm (alone (\<lambda>k. 1700000030000) res_2)) res_1 ledger =
     (rival_confirm ledger,
      Inr (as_ReservationResponse (row_1\<lparr>status := CONFIRMED, confirmed_at := Some 1700000029000\<rparr>)))"
proof -
  let ?rc = "racing rival_cancel (alone (\<lambda>k. 1700000030000) res_2)"
  let ?rf = "racing rival_confirm (alone (\<lambda>k. 1700000030000) res_2)"
  have a: "getReservation ledger res_1 = Inr row_1"
    by (simp add: getReservation_def ledger_def rows ids)
  have b: "status row_1 = PENDING"
    by (simp add: rows)
  have c: "\<not> clock ?rc 0 > expires_at row_1" "\<not> clock ?rf 0 > expires_at row_1"
    by (simp_all add: rows alone_def racing_def)
  have o: "others ?rc 0 = rival_cancel" "others ?rc 1 = id"
          "others ?rf 0 = rival_confirm" "others ?rf 1 = id"
    by (simp_all add: racing_def)
  have d1: "filter (\<lambda>x. id_res x = res_1 \<and> status x = PENDING) (reservations (others ?rc 0 ledger)) = []"
    unfolding o rival_cancel_ledger by (simp add: rows ids)
  have d2: "filter (\<lambda>x. id_res x = res_1 \<and> status x = PENDING) (reservations (others ?rf 0 ledger)) = []"
    unfolding o rival_confirm_ledger by (simp add: rows ids)
  have e1: "getReservation (others ?rc 1 (others ?rc 0 ledger)) res_1 =
              Inr (row_1\<lparr>status := CANCELLED, cancelled_at := Some 1700000029000\<rparr>)"
    unfolding o id_apply rival_cancel_ledger by (simp add: getReservation_def rows ids)
  have e2: "getReservation (others ?rf 1 (others ?rf 0 ledger)) res_1 =
              Inr (row_1\<lparr>status := CONFIRMED, confirmed_at := Some 1700000029000\<rparr>)"
    unfolding o id_apply rival_confirm_ledger by (simp add: getReservation_def rows ids)
  show ?thesis
    using confirm_guard_missed [OF a b c(1) d1 e1] confirm_guard_missed [OF a b c(2) d2 e2]
    by (simp add: racing_def)
qed

text \<open>
  The claim as stated fails: after a rival cancel the error carries the code of an expired
  reservation, whose kind in the specification is not \<open>ReservationStateChanged\<close>.
\<close>

theorem confirm_guard_missed_counterexample:
  "confirmReservation (racing rival_cancel (alone (\<lambda>k. 1700000030000) res_2)) res_1 ledger =
     (ledger\<lparr>reservations :=
        [row_1\<lparr>status := CANCELLED, cancelled_at := Some 1700000029000\<rparr>, row_2, row_3, row_4]\<rparr>,
      Inl \<lparr>statusCode = 409, message = ''Reservation state changed'', code = RESERVATION_EXPIRED\<rparr>)
   \<and> spec_kind RESERVATION_EXPIRED = Some ReservationExpired
   \<and> spec_kind RESERVATION_EXPIRED \<noteq> Some ReservationStateChanged"
proof -
  have a: "getReservation ledger res_1 = Inr row_1"
    by (simp add: getReservation_def ledger_def rows ids)
  have b: "status row_1 = PENDING" "expires_at row_1 = 1700000060000"
    by (simp_all add: rows)
  have u: "update_single (\<lambda>r. id_res r = res_1 \<and> status r = PENDING) f (rival_cancel ledger) =
             (rival_cancel ledger, Inl PGRST116)" for f
    unfolding rival_cancel_ledger by (simp add: update_single_def rows ids)
  have g: "getReservation (rival_cancel ledger) res_1 =
             Inr (row_1\<lparr>status := CANCELLED, cancelled_at := Some 1700000029000\<rparr>)"
    unfolding rival_cancel_ledger by (simp add: getReservation_def rows ids)
  have "confirmReservation (racing rival_cancel (alone (\<lambda>k. 1700000030000) res_2)) res_1 ledger =
     (rival_cancel ledger,
      Inl \<lparr>statusCode = 409, message = ''Reservation state changed'', code = RESERVATION_EXPIRED\<rparr>)"
    by (simp add: confirmReservation_def a b u g racing_def alone_def)
  then show ?thesis
    by (simp add: rival_cancel_ledger)
qed

section \<open>Quantity accounting and creation\<close>

text \<open>
  C2. For an item that exists, \<open>getItemStatus\<close> reports as \<open>reserved_quantity\<close> the
  sum of \<open>quantity\<close> over all the item's PENDING reservations, whatever their
  \<open>expires_at\<close>, while \<open>getAvailableQuantity\<close> (the check of
  \<open>createReservation\<close>) counts only the PENDING ones whose \<open>expires_at\<close> is strictly
  greater than the current time; both subtract from \<open>total_quantity\<close> that sum and
  the sum over the CONFIRMED reservations. The two reserved sums differ by exactly the
  PENDING reservations that are not strictly in the future.
\<close>

theorem availability_computations:
  assumes "filter (\<lambda>i. id_item i = itemId) (items db) = [item]"
  shows "getItemStatus db itemId =
           Inr \<lparr>id_st = id_item item, name_st = name item, total_quantity_st = total_quantity item,
                available_quantity =
                  total_quantity item
                  - (\<Sum>r\<leftarrow>filter (\<lambda>r. item_id r = itemId \<and> status r = PENDING) (reservations db). quantity r)
                  - (\<Sum>r\<leftarrow>filter (\<lambda>r. item_id r = itemId \<and> status r = CONFIRMED) (reservations db). quantity r),
                reserved_quantity =
                  (\<Sum>r\<leftarrow>filter (\<lambda>r. item_id r = itemId \<and> status r = PENDING) (reservations db). quantity r),
                confirmed_quantity =
                  (\<Sum>r\<leftarrow>filter (\<lambda>r. item_id r = itemId \<and> status r = CONFIRMED) (reservations db). quantity r),
                created_at_st = created_at_item item, updated_at_st = updated_at item\<rparr>
       \<and> getAvailableQuantity now itemId db =
           Inr (total_quantity item
                - (\<Sum>r\<leftarrow>filter (\<lambda>r. item_id r = itemId \<and> status r = PENDING \<and> expires_at r > now) (reservations db). quantity r)
                - (\<Sum>r\<leftarrow>filter (\<lambda>r. item_id r = itemId \<and> status r = CONFIRMED) (reservations db). quantity r))
       \<and> (\<Sum>r\<leftarrow>filter (\<lambda>r. item_id r = itemId \<and> status r = PENDING) (reservations db). quantity r) =
           (\<Sum>r\<leftarrow>filter (\<lambda>r. item_id r = itemId \<and> status r = PENDING \<and> expires_at r > now) (reservations db). quantity r)
         + (\<Sum>r\<leftarrow>filter (\<lambda>r. item_id r = itemId \<and> status r = PENDING \<and> \<not> expires_at r > now) (reservations db). quantity r)"
proof -
  have split: "(\<Sum>r\<leftarrow>filter (\<lambda>r. item_id r = itemId \<and> status r = PENDING) (reservations db). quantity r) =
           (\<Sum>r\<leftarrow>filter (\<lambda>r. item_id r = itemId \<and> status r = PENDING \<and> expires_at r > now) (reservations db). quantity r)
         + (\<Sum>r\<leftarrow>filter (\<lambda>r. item_id r = itemId \<and> status r = PENDING \<and> \<not> expires_at r > now) (reservations db). quantity r)"
    using sum_list_filter_split [of quantity "\<lambda>r. item_id r = itemId \<and> status r = PENDING"
        "reservations db" "\<lambda>r. expires_at r > now"]
    by (simp add: conj_assoc)
  have status: "getItemStatus db itemId =
           Inr \<lparr>id_st = id_item item, name_st = name item, total_quantity_st = total_quantity item,
                available_quantity =
                  total_quantity item
                  - (\<Sum>r\<leftarrow>filter (\<lambda>r. item_id r = itemId \<and> status r = PENDING) (reservations db). quantity r)
                  - (\<Sum>r\<leftarrow>filter (\<lambda>r. item_id r = itemId \<and> status r = CONFIRMED) (reservations db). quantity r),
                reserved_quantity =
                  (\<Sum>r\<leftarrow>filter (\<lambda>r. item_id r = itemId \<and> status r = PENDING) (reservations db). quantity r),
                confirmed_quantity =
                  (\<Sum>r\<leftarrow>filter (\<lambda>r. item_id r = itemId \<and> status r = CONFIRMED) (reservations db). quantity r),
                created_at_st = created_at_item item, updated_at_st = updated_at item\<rparr>"
    using assms by (simp add: getItemStatus_def reduce_quantity_sum Let_def)
  show ?thesis
    using status getAvailableQuantity_sum [OF assms, of now] split by simp
qed

theorem availability_computations_witness:
  "filter (\<lambda>i. id_item i = item_a) (items ledger) = [widget]
   \<and> getItemStatus ledger item_a =
       Inr \<lparr>id_st = item_a, name_st = ''Widget'', total_quantity_st = 5,
            available_quantity = 2, reserved_quantity = 2, confirmed_quantity = 1,
            created_at_st = 1700000000000, updated_at_st = 1700000000000\<rparr>
   \<and> getAvailableQuantity 1700000100000 item_a ledger = Inr 4"
proof -
  have a: "filter (\<lambda>i. id_item i = item_a) (items ledger) = [widget]"
    by (simp add: ledger_def rows ids)
  show ?thesis
    using a availability_computations [OF a, of 1700000100000]
    by (simp add: ledger_def rows ids)
qed

text \<open>
  C8, as the code has it. \<open>createReservation\<close> fails with \<open>ITEM_NOT_FOUND\<close> when no
  item has the given \<open>item_id\<close>. Otherwise, when the available quantity of the admission
  check is strictly less than the requested one, it fails with \<open>INSUFFICIENT_QUANTITY\<close>,
  whose message carries both amounts, and inserts nothing. Otherwise it asks the store to
  insert one row. When the store accepts the row, exactly one row is added and returned:
  it is PENDING, has the given quantity, item and (for an input that passed the request
  schema) customer, and on a host that keeps its zone offset across the added minute its
  \<open>expires_at\<close> is the clock reading plus one minute. When the store refuses the row the
  call fails with \<open>DATABASE_ERROR\<close> and inserts nothing.
\<close>

theorem createReservation_cases:
  "(filter (\<lambda>i. id_item i = item_id_in input) (items db) = [] \<longrightarrow>
      createReservation rt input db =
        (db, Inl \<lparr>statusCode = 404, message = ''Item not found'', code = ITEM_NOT_FOUND\<rparr>))
 \<and> (filter (\<lambda>i. id_item i = item_id_in input) (items db) = [item]
      \<and> getAvailableQuantity (clock rt 0) (item_id_in input) db = Inr a \<longrightarrow>
      (a < quantity_in input \<longrightarrow>
         createReservation rt input db =
           (db, Inl \<lparr>statusCode = 409,
                     message = ''Insufficient available quantity. Available: '' @ Number_toString a
                               @ '', Requested: '' @ Number_toString (quantity_in input),
                     code = INSUFFICIENT_QUANTITY\<rparr>))
    \<and> (\<not> a < quantity_in input
        \<and> accepted_row db
             \<lparr>id_res = gen_random_uuid rt, item_id = item_id_in input,
              customer_id = customer_id_in input, quantity = quantity_in input,
              status = PENDING, created_at = NOW rt,
              expires_at = Date_setMinutes (LocalTZA rt) (clock rt 1)
                             (Date_getMinutes (LocalTZA rt) (clock rt 1) + RESERVATION_EXPIRY_MINUTES),
              confirmed_at = None, cancelled_at = None\<rparr> = Some r' \<longrightarrow>
         createReservation rt input db =
           (db\<lparr>reservations := reservations db @ [r']\<rparr>, Inr (as_ReservationResponse r'))
         \<and> id_res r' = gen_random_uuid rt \<and> item_id r' = item_id_in input
         \<and> quantity r' = quantity_in input \<and> status r' = PENDING
         \<and> created_at r' = NOW rt \<and> confirmed_at r' = None \<and> cancelled_at r' = None
         \<and> (createReservationSchema input \<longrightarrow> customer_id r' = customer_id_in input)
         \<and> (keeps_offset rt \<longrightarrow> expires_at r' = clock rt 1 + 60000))
    \<and> (\<not> a < quantity_in input
        \<and> accepted_row db
             \<lparr>id_res = gen_random_uuid rt, item_id = item_id_in input,
              customer_id = customer_id_in input, quantity = quantity_in input,
              status = PENDING, created_at = NOW rt,
              expires_at = Date_setMinutes (LocalTZA rt) (clock rt 1)
                             (Date_getMinutes (LocalTZA rt) (clock rt 1) + RESERVATION_EXPIRY_MINUTES),
              confirmed_at = None, cancelled_at = None\<rparr> = None \<longrightarrow>
         createReservation rt input db =
           (db, Inl \<lparr>statusCode = 500, message = ''Failed to create reservation'',
                     code = DATABASE_ERROR\<rparr>)))"
proof -
  let ?row = "\<lparr>id_res = gen_random_uuid rt, item_id = item_id_in input,
              customer_id = customer_id_in input, quantity = quantity_in input,
              status = PENDING, created_at = NOW rt,
              expires_at = Date_setMinutes (LocalTZA rt) (clock rt 1)
                             (Date_getMinutes (LocalTZA rt) (clock rt 1) + RESERVATION_EXPIRY_MINUTES),
              confirmed_at = None, cancelled_at = None\<rparr>"
  have none: "createReservation rt input db =
        (db, Inl \<lparr>statusCode = 404, message = ''Item not found'', code = ITEM_NOT_FOUND\<rparr>)"
    if "filter (\<lambda>i. id_item i = item_id_in input) (items db) = []"
    using that by (simp add: createReservation_def itemExists_iff)
  have few: "createReservation rt input db =
           (db, Inl \<lparr>statusCode = 409,
                     message = ''Insufficient available quantity. Available: '' @ Number_toString a
                               @ '', Requested: '' @ Number_toString (quantity_in input),
                     code = INSUFFICIENT_QUANTITY\<rparr>)"
    if "filter (\<lambda>i. id_item i = item_id_in input) (items db) = [item]"
      and "getAvailableQuantity (clock rt 0) (item_id_in input) db = Inr a"
      and "a < quantity_in input"
    using that by (simp add: createReservation_def itemExists_iff)
  have asked: "createReservation rt input db =
           (case accepted_row db ?row of
              Some r' \<Rightarrow> (db\<lparr>reservations := reservations db @ [r']\<rparr>, Inr (as_ReservationResponse r'))
            | None \<Rightarrow> (db, Inl \<lparr>statusCode = 500, message = ''Failed to create reservation'',
                                 code = DATABASE_ERROR\<rparr>))"
    if "filter (\<lambda>i. id_item i = item_id_in input) (items db) = [item]"
      and "getAvailableQuantity (clock rt 0) (item_id_in input) db = Inr a"
      and "\<not> a < quantity_in input"
    using that
    by (simp add: createReservation_def itemExists_iff insert_reservation_def Let_def
        split: option.splits)
  have kept: "id_res r' = gen_random_uuid rt \<and> item_id r' = item_id_in input
         \<and> quantity r' = quantity_in input \<and> status r' = PENDING
         \<and> created_at r' = NOW rt \<and> confirmed_at r' = None \<and> cancelled_at r' = None
         \<and> (createReservationSchema input \<longrightarrow> customer_id r' = customer_id_in input)
         \<and> (keeps_offset rt \<longrightarrow> expires_at r' = clock rt 1 + 60000)"
    if "accepted_row db ?row = Some r'"
    using that
    by (auto simp: accepted_row_def VARCHAR_255_def createReservationSchema_def keeps_offset_def
        setMinutes_local RESERVATION_EXPIRY_MINUTES_def split: option.splits if_splits)
  show ?thesis
    using none few asked kept by simp
qed

theorem createReservation_cases_witness:
  "createReservation (alone (\<lambda>k. 1700000030000) res_5) \<lparr>item_id_in = res_5, customer_id_in = ''erin'', quantity_in = 1\<rparr> ledger =
     (ledger, Inl \<lparr>statusCode = 404, message = ''Item not found'', code = ITEM_NOT_FOUND\<rparr>)
   \<and> createReservation (alone (\<lambda>k. 1700000030000) res_5) (order ''erin'' 3) ledger =
     (ledger, Inl \<lparr>statusCode = 409,
                   message = ''Insufficient available quantity. Available: 2, Requested: 3'',
                   code = INSUFFICIENT_QUANTITY\<rparr>)
   \<and> createReservationSchema (order ''erin'' 2)
   \<and> keeps_offset (alone (\<lambda>k. 1700000030000) res_5)
   \<and> createReservation (alone (\<lambda>k. 1700000030000) res_5) (order ''erin'' 2) ledger =
     (ledger\<lparr>reservations := [row_1, row_2, row_3, row_4, row_5]\<rparr>,
      Inr \<lparr>id_resp = res_5, item_id_resp = item_a, customer_id_resp = ''erin'',
           quantity_resp = 2, status_resp = PENDING, created_at_resp = 1700000030000,
           expires_at_resp = 1700000090000, confirmed_at_resp = Some None,
           cancelled_at_resp = Some None\<rparr>)
   \<and> expires_at row_5 = 1700000030000 + 60000
   \<and> createReservation (alone (\<lambda>k. 1700000030000) res_5) (order '' '' 2) ledger =
     (ledger, Inl \<lparr>statusCode = 500, message = ''Failed to create reservation'',
                   code = DATABASE_ERROR\<rparr>)"
proof -
  let ?rt = "alone (\<lambda>k. 1700000030000) res_5"
  let ?row = "\<lambda>c. \<lparr>id_res = gen_random_uuid ?rt, item_id = item_id_in (order c 2),
              customer_id = customer_id_in (order c 2), quantity = quantity_in (order c 2),
              status = PENDING, created_at = NOW ?rt,
              expires_at = Date_setMinutes (LocalTZA ?rt) (clock ?rt 1)
                             (Date_getMinutes (LocalTZA ?rt) (clock ?rt 1) + RESERVATION_EXPIRY_MINUTES),
              confirmed_at = None, cancelled_at = None\<rparr>"
  have none: "filter (\<lambda>i. id_item i = item_id_in \<lparr>item_id_in = res_5, customer_id_in = ''erin'', quantity_in = 1\<rparr>) (items ledger) = []"
    by (simp add: ledger_def rows ids res_5_def)
  have item: "filter (\<lambda>i. id_item i = item_id_in (order c q)) (items ledger) = [widget]" for c q
    by (simp add: order_def ledger_item)
  have avail: "getAvailableQuantity (clock ?rt 0) (item_id_in (order c q)) ledger = Inr 2" for c q
    by (simp add: order_def alone_def ledger_available)
  have ok: "accepted_row ledger (?row ''erin'') = Some row_5"
    by (simp add: accepted_row_def VARCHAR_255_def INTEGER_def reservations_constraints_def
        TRIM_def setMinutes_local RESERVATION_EXPIRY_MINUTES_def order_def alone_def ledger_def
        rows ids res_5_def row_5_def)
  have bad: "accepted_row ledger (?row '' '') = None"
    by (simp add: accepted_row_def VARCHAR_255_def INTEGER_def reservations_constraints_def
        TRIM_def order_def)
  have schema: "createReservationSchema (order ''erin'' 2)"
    by (simp add: createReservationSchema_def order_def)
  have zone: "keeps_offset ?rt"
    by (simp add: keeps_offset_def alone_def)
  have few: "(2::int) < quantity_in (order ''erin'' 3)" and enough: "\<not> (2::int) < quantity_in (order c 2)" for c
    by (simp_all add: order_def)
  have s: "Number_toString 2 = ''2''" "Number_toString (quantity_in (order ''erin'' 3)) = ''3''"
    by (simp_all add: Number_toString_def decimal.simps order_def)
  note a = createReservation_cases [where input = "\<lparr>item_id_in = res_5, customer_id_in = ''erin'', quantity_in = 1\<rparr>" and db = ledger and rt = ?rt, THEN conjunct1, rule_format, OF none]
  note b = createReservation_cases [where input = "order ''erin'' 3" and db = ledger and item = widget and rt = ?rt and a = 2,
      THEN conjunct2, rule_format, OF conjI [OF item avail], THEN conjunct1, rule_format, OF few]
  note c = createReservation_cases [where input = "order ''erin'' 2" and db = ledger and item = widget and rt = ?rt and a = 2 and r' = row_5,
      THEN conjunct2, rule_format, OF conjI [OF item avail], THEN conjunct2, THEN conjunct1, rule_format, OF conjI [OF enough ok]]
  note d = createReservation_cases [where input = "order '' '' 2" and db = ledger and item = widget and rt = ?rt and a = 2,
      THEN conjunct2, rule_format, OF conjI [OF item avail], THEN conjunct2, THEN conjunct2, rule_format, OF conjI [OF enough bad]]
  have e: "expires_at row_5 = 1700000030000 + 60000"
    using c schema zone by (simp add: alone_def)
  show ?thesis
    using a b c [THEN conjunct1] d e schema zone
    by (simp add: s) (simp add: as_ReservationResponse_def row_5_def ledger_def)
qed

text \<open>
  The claim as stated fails: a \<open>customer_id\<close> of one space passes the request schema
  (its length is 1) and the item has two units available for the two requested, but the
  row violates \<open>CHECK (LENGTH(TRIM(customer_id)) > 0)\<close>; nothing is inserted.
\<close>

theorem blank_customer_counterexample:
  "createReservationSchema (order '' '' 2)
   \<and> itemExists ledger (item_id_in (order '' '' 2)) = Inr True
   \<and> getAvailableQuantity 1700000030000 (item_id_in (order '' '' 2)) ledger = Inr 2
   \<and> quantity_in (order '' '' 2) = 2
   \<and> createReservation (alone (\<lambda>k. 1700000030000) res_5) (order '' '' 2) ledger =
       (ledger, Inl \<lparr>statusCode = 500, message = ''Failed to create reservation'',
                     code = DATABASE_ERROR\<rparr>)"
  by (simp add: createReservationSchema_def evals ledger_def rows ids res_5_def)

text \<open>
  On a host that keeps its zone offset across the added minute, a successful
  \<open>createReservation\<close> returns, and stores under the returned identifier, an
  \<open>expires_at\<close> of the clock reading plus 60000 milliseconds.
\<close>

lemma expires_one_minute_later:
  assumes "createReservation rt input db = (db', Inr resp)" and "keeps_offset rt"
  shows "expires_at_resp resp = clock rt 1 + 1 * 60000
       \<and> (\<exists>r. getReservation db' (id_resp resp) = Inr r \<and> status r = PENDING
              \<and> expires_at r = clock rt 1 + 1 * 60000)"
proof -
  let ?row = "\<lparr>id_res = gen_random_uuid rt, item_id = item_id_in input,
              customer_id = customer_id_in input, quantity = quantity_in input,
              status = PENDING, created_at = NOW rt,
              expires_at = Date_setMinutes (LocalTZA rt) (clock rt 1)
                             (Date_getMinutes (LocalTZA rt) (clock rt 1) + RESERVATION_EXPIRY_MINUTES),
              confirmed_at = None, cancelled_at = None\<rparr>"
  from assms(1) obtain r' where ok: "accepted_row db ?row = Some r'"
    and db': "db' = db\<lparr>reservations := reservations db @ [r']\<rparr>"
    and resp: "resp = as_ReservationResponse r'"
    by (auto simp: createReservation_def insert_reservation_def Let_def
        split: sum.splits if_splits option.splits)
  from ok have r': "id_res r' = gen_random_uuid rt" "status r' = PENDING"
    "expires_at r' = clock rt 1 + 60000"
    and new: "gen_random_uuid rt \<notin> id_res ` set (reservations db)"
    using assms(2)
    by (auto simp: accepted_row_def reservations_constraints_def keeps_offset_def setMinutes_local
        RESERVATION_EXPIRY_MINUTES_def split: option.splits if_splits)
  from new have "filter (\<lambda>x. id_res x = gen_random_uuid rt) (reservations db) = []"
    by (force simp: filter_empty_conv)
  then have "getReservation db' (id_resp resp) = Inr r'"
    by (simp add: db' resp r' as_ReservationResponse_def getReservation_Inr_iff)
  then show ?thesis
    by (simp add: resp r' as_ReservationResponse_def)
qed

text \<open>
  C9. \<open>RESERVATION_EXPIRY_MINUTES\<close> is 1, not the ten minutes of the README, but the
  stored \<open>expires_at\<close> is not the clock reading plus one minute after every successful
  \<open>createReservation\<close>: the minute is added to the local time of the host. On a host in
  New York, alice's order taken at 05:59:30 UTC on 2 November 2025 (01:59:30 local, thirty
  seconds before the clocks go back) is given an \<open>expires_at\<close> 61 minutes after the
  clock reading, and her order taken at 06:30:00 UTC (01:30:00 local, for the second time)
  an \<open>expires_at\<close> 59 minutes before it, so that a second later it can no longer be
  confirmed.
\<close>

theorem expiry_across_clock_change:
  "RESERVATION_EXPIRY_MINUTES = 1
   \<and> createReservation (in_New_York (alone (\<lambda>k. 1762063170000) res_1)) (request ''alice'') shop =
       (shop\<lparr>reservations := [hold_from 1762063170000 (1762063170000 + 61 * 60000)]\<rparr>,
        Inr (as_ReservationResponse (hold_from 1762063170000 (1762063170000 + 61 * 60000))))
   \<and> createReservation (in_New_York (alone (\<lambda>k. 1762065000000) res_1)) (request ''alice'') shop =
       (shop\<lparr>reservations := [hold_from 1762065000000 (1762065000000 - 59 * 60000)]\<rparr>,
        Inr (as_ReservationResponse (hold_from 1762065000000 (1762065000000 - 59 * 60000))))
   \<and> confirmReservation (in_New_York (alone (\<lambda>k. 1762065001000) res_2)) res_1
         (shop\<lparr>reservations := [hold_from 1762065000000 (1762065000000 - 59 * 60000)]\<rparr>) =
       (shop\<lparr>reservations := [hold_from 1762065000000 (1762065000000 - 59 * 60000)]\<rparr>,
        Inl \<lparr>statusCode = 409, message = ''Cannot confirm an expired reservation'',
             code = RESERVATION_EXPIRED\<rparr>)"
  by (simp add: evals confirmReservation_def in_New_York_def New_York_def shop_defs hold_from_def ids)

text \<open>
  C10. \<open>getItemStatus\<close> puts no lower bound on what it reports. From a shop with one
  item of two units and no reservation, alice reserves two units; one millisecond after
  her hold has expired (and before any sweep) bob reserves two units, which the admission
  check allows; the status report then counts both PENDING holds and reports
  \<open>reserved_quantity = 4\<close> and \<open>available_quantity = -2\<close>.
\<close>

theorem status_report_negative:
  "createReservation (alone (\<lambda>k. 1700000000000) res_1) (request ''alice'') shop =
     (shop\<lparr>reservations := [hold_1]\<rparr>, Inr (as_ReservationResponse hold_1))
   \<and> createReservation (alone (\<lambda>k. 1700000060001) res_2) (request ''bob'')
       (shop\<lparr>reservations := [hold_1]\<rparr>) =
     (shop\<lparr>reservations := [hold_1, hold_2 1700000060001]\<rparr>,
      Inr (as_ReservationResponse (hold_2 1700000060001)))
   \<and> getItemStatus (shop\<lparr>reservations := [hold_1, hold_2 1700000060001]\<rparr>) item_b =
       Inr \<lparr>id_st = item_b, name_st = ''Gadget'', total_quantity_st = 2,
            available_quantity = - 2, reserved_quantity = 4, confirmed_quantity = 0,
            created_at_st = 1699990000000, updated_at_st = 1699990000000\<rparr>"
  by (simp add: evals shop_defs ids)

section \<open>Expiry sweep\<close>

text \<open>
  C7. \<open>expireReservations\<close> returns count 0 and no identifier, and leaves the store
  alone, when no reservation is PENDING with \<open>expires_at\<close> strictly before the clock
  reading. In every case the count and the identifiers it returns are those of the rows
  its first query selected, whatever other requests did to those rows before the update.
  The update leaves the items and the number of rows as they are, and changes a row only
  if that row is still PENDING and its identifier was selected: such a row becomes
  EXPIRED and every other row stays as it is.
\<close>

theorem expireReservations_result:
  "(filter (\<lambda>r. status r = PENDING \<and> expires_at r < clock rt 0) (reservations db) = [] \<longrightarrow>
      expireReservations rt db = (db, Inr \<lparr>expired_count = 0, expired_reservation_ids = []\<rparr>))
 \<and> snd (expireReservations rt db) =
      Inr \<lparr>expired_count =
             length (filter (\<lambda>r. status r = PENDING \<and> expires_at r < clock rt 0) (reservations db)),
           expired_reservation_ids =
             map id_res (filter (\<lambda>r. status r = PENDING \<and> expires_at r < clock rt 0) (reservations db))\<rparr>
 \<and> (filter (\<lambda>r. status r = PENDING \<and> expires_at r < clock rt 0) (reservations db) \<noteq> [] \<longrightarrow>
      items (fst (expireReservations rt db)) = items (others rt 0 db)
    \<and> length (reservations (fst (expireReservations rt db))) = length (reservations (others rt 0 db))
    \<and> (\<forall>k < length (reservations (others rt 0 db)).
          reservations (fst (expireReservations rt db)) ! k =
            (if status (reservations (others rt 0 db) ! k) = PENDING
                \<and> id_res (reservations (others rt 0 db) ! k)
                    \<in> id_res ` {r \<in> set (reservations db). status r = PENDING \<and> expires_at r < clock rt 0}
             then (reservations (others rt 0 db) ! k)\<lparr>status := EXPIRED\<rparr>
             else reservations (others rt 0 db) ! k)))"
  by (auto simp: expireReservations_def update_where_def Let_def)

theorem expireReservations_result_witness:
  "filter (\<lambda>r. status r = PENDING \<and> expires_at r < clock (alone (\<lambda>k. 1700000030000) res_5) 0)
       (reservations ledger) = []
   \<and> expireReservations (alone (\<lambda>k. 1700000030000) res_5) ledger =
       (ledger, Inr \<lparr>expired_count = 0, expired_reservation_ids = []\<rparr>)
   \<and> filter (\<lambda>r. status r = PENDING \<and> expires_at r < clock (racing late_cancel (alone (\<lambda>k. 1700000100000) res_5)) 0)
       (reservations ledger) = [row_1]
   \<and> snd (expireReservations (racing late_cancel (alone (\<lambda>k. 1700000100000) res_5)) ledger) =
       Inr \<lparr>expired_count = 1, expired_reservation_ids = [res_1]\<rparr>
   \<and> reservations (fst (expireReservations (racing late_cancel (alone (\<lambda>k. 1700000100000) res_5)) ledger)) ! 0 =
       row_1\<lparr>status := CANCELLED, cancelled_at := Some 1700000099000\<rparr>
   \<and> filter (\<lambda>r. status r = PENDING \<and> expires_at r < clock (alone (\<lambda>k. 1700000100000) res_5) 0)
       (reservations ledger) = [row_1]
   \<and> snd (expireReservations (alone (\<lambda>k. 1700000100000) res_5) ledger) =
       Inr \<lparr>expired_count = 1, expired_reservation_ids = [res_1]\<rparr>
   \<and> reservations (fst (expireReservations (alone (\<lambda>k. 1700000100000) res_5) ledger)) ! 0 =
       row_1\<lparr>status := EXPIRED\<rparr>"
proof -
  let ?quiet = "alone (\<lambda>k. 1700000030000) res_5"
  let ?late = "alone (\<lambda>k. 1700000100000) res_5"
  let ?race = "racing late_cancel (alone (\<lambda>k. 1700000100000) res_5)"
  have a: "filter (\<lambda>r. status r = PENDING \<and> expires_at r < clock ?quiet 0) (reservations ledger) = []"
    by (simp add: alone_def ledger_def rows)
  have b: "filter (\<lambda>r. status r = PENDING \<and> expires_at r < clock ?race 0) (reservations ledger) = [row_1]"
    by (simp add: alone_def racing_def ledger_def rows)
  have c: "filter (\<lambda>r. status r = PENDING \<and> expires_at r < clock ?late 0) (reservations ledger) = [row_1]"
    by (simp add: alone_def ledger_def rows)
  have o: "others ?race 0 ledger = late_cancel ledger" "others ?late 0 ledger = ledger"
    by (simp_all add: racing_def alone_def)
  have l: "reservations (late_cancel ledger) ! 0 = row_1\<lparr>status := CANCELLED, cancelled_at := Some 1700000099000\<rparr>"
    "0 < length (reservations (late_cancel ledger))"
    "reservations ledger ! 0 = row_1" "0 < length (reservations ledger)"
    by (simp_all add: late_cancel_ledger) (simp_all add: ledger_def)
  have ne: "reservations (late_cancel ledger) \<noteq> []" "reservations ledger \<noteq> []"
    by (simp_all add: late_cancel_ledger) (simp_all add: ledger_def)
  have s: "status row_1 = PENDING" "id_res row_1 = res_1"
    by (simp_all add: rows)
  have m: "res_1 \<in> id_res ` {r \<in> set (reservations ledger). status r = PENDING \<and> expires_at r < clock ?late 0}"
  proof (rule image_eqI [where x = row_1])
    show "res_1 = id_res row_1" by (simp add: rows)
    show "row_1 \<in> {r \<in> set (reservations ledger). status r = PENDING \<and> expires_at r < clock ?late 0}"
      by (simp add: alone_def ledger_def rows)
  qed
  note q = expireReservations_result [of ?quiet ledger]
  note r = expireReservations_result [of ?race ledger]
  note t = expireReservations_result [of ?late ledger]
  note rk = r [THEN conjunct2, THEN conjunct2, rule_format, THEN conjunct2, THEN conjunct2, rule_format]
  note tk = t [THEN conjunct2, THEN conjunct2, rule_format, THEN conjunct2, THEN conjunct2, rule_format]
  have q': "expireReservations ?quiet ledger = (ledger, Inr \<lparr>expired_count = 0, expired_reservation_ids = []\<rparr>)"
    using q [THEN conjunct1] a by simp
  have r1: "snd (expireReservations ?race ledger) = Inr \<lparr>expired_count = 1, expired_reservation_ids = [res_1]\<rparr>"
    using r [THEN conjunct2, THEN conjunct1] by (simp only: b) (simp add: s)
  have r2: "reservations (fst (expireReservations ?race ledger)) ! 0 =
              row_1\<lparr>status := CANCELLED, cancelled_at := Some 1700000099000\<rparr>"
    using rk [of 0] by (simp add: b o l ne)
  have t1: "snd (expireReservations ?late ledger) = Inr \<lparr>expired_count = 1, expired_reservation_ids = [res_1]\<rparr>"
    using t [THEN conjunct2, THEN conjunct1] by (simp only: c) (simp add: s)
  have t2: "reservations (fst (expireReservations ?late ledger)) ! 0 = row_1\<lparr>status := EXPIRED\<rparr>"
    using tk [of 0] m by (simp add: c o l s ne)
  show ?thesis
    using a b c q' r1 r2 t1 t2 by simp
qed

section \<open>The accounting contract\<close>

text \<open>
  What the operations keep of the contract when each runs alone. The passing of time
  keeps it, since a hold can only stop being live. \<open>createReservation\<close>,
  \<open>cancelReservation\<close> and \<open>expireReservations\<close> keep it, and so does
  \<open>confirmReservation\<close> unless the clock reads exactly the \<open>expires_at\<close> of the
  reservation.
\<close>

lemma counted_is_held:
  "live_pending_quantity now i db + confirmed_total i db = (\<Sum>r\<leftarrow>reservations db. held now i r)"
  by (simp add: live_pending_quantity_def confirmed_total_def held_def sum_list_map_filter'
      sum_list_addf)

lemma accounting_invariant_held:
  "accounting_invariant now db \<longleftrightarrow>
     (\<forall>i \<in> set (items db). (\<Sum>r\<leftarrow>reservations db. held now (id_item i) r) \<le> total_quantity i)"
  by (simp add: accounting_invariant_def list_all_iff counted_is_held)

lemma held_later:
  assumes "now \<le> t" and "0 \<le> quantity r"
  shows "held t i r \<le> held now i r"
  using assms by (simp add: held_def)

lemma sum_held_later:
  assumes "now \<le> t" and "\<forall>r \<in> set rows. 0 < quantity r"
  shows "(\<Sum>r\<leftarrow>rows. held t i r) \<le> (\<Sum>r\<leftarrow>rows. held now i r)"
  using assms by (intro sum_list_mono held_later) auto

lemma accounting_invariant_later:
  assumes "accounting_invariant now db" and "now \<le> t" and "quantities_positive db"
  shows "accounting_invariant t db"
  unfolding accounting_invariant_held
proof
  fix i assume i: "i \<in> set (items db)"
  have "(\<Sum>r\<leftarrow>reservations db. held t (id_item i) r) \<le> (\<Sum>r\<leftarrow>reservations db. held now (id_item i) r)"
    using assms(2,3) by (intro sum_held_later) (auto simp: quantities_positive_def list_all_iff)
  also have "\<dots> \<le> total_quantity i"
    using assms(1) i by (simp add: accounting_invariant_held)
  finally show "(\<Sum>r\<leftarrow>reservations db. held t (id_item i) r) \<le> total_quantity i" .
qed

lemma sum_held_rewrite:
  assumes "\<And>r. r \<in> set rows \<Longrightarrow> P r \<Longrightarrow> held now i (f r) \<le> held now i r"
  shows "(\<Sum>r\<leftarrow>map (\<lambda>r. if P r then f r else r) rows. held now i r) \<le> (\<Sum>r\<leftarrow>rows. held now i r)"
proof -
  have "(\<Sum>r\<leftarrow>map (\<lambda>r. if P r then f r else r) rows. held now i r)
        = (\<Sum>r\<leftarrow>rows. held now i (if P r then f r else r))"
    by (simp add: o_def)
  also have "\<dots> \<le> (\<Sum>r\<leftarrow>rows. held now i r)"
    by (intro sum_list_mono) (simp add: assms)
  finally show ?thesis .
qed

lemma accounting_invariant_rewrite:
  assumes "accounting_invariant now db"
    and "\<And>r i. r \<in> set (reservations db) \<Longrightarrow> P r \<Longrightarrow> held now i (f r) \<le> held now i r"
  shows "accounting_invariant now
           (db\<lparr>reservations := map (\<lambda>r. if P r then f r else r) (reservations db)\<rparr>)"
  unfolding accounting_invariant_held
proof
  fix i assume "i \<in> set (items (db\<lparr>reservations := map (\<lambda>r. if P r then f r else r) (reservations db)\<rparr>))"
  then have i: "i \<in> set (items db)" by simp
  have "(\<Sum>r\<leftarrow>map (\<lambda>r. if P r then f r else r) (reservations db). held now (id_item i) r)
        \<le> (\<Sum>r\<leftarrow>reservations db. held now (id_item i) r)"
    by (intro sum_held_rewrite assms(2))
  also have "\<dots> \<le> total_quantity i"
    using assms(1) i by (simp add: accounting_invariant_held)
  finally show "(\<Sum>r\<leftarrow>reservations (db\<lparr>reservations := map (\<lambda>r. if P r then f r else r) (reservations db)\<rparr>).
                  held now (id_item i) r) \<le> total_quantity i"
    by simp
qed

lemma cancelReservation_keeps_contract:
  assumes "accounting_invariant now db" and "quantities_positive db" and "others rt = (\<lambda>k. id)"
  shows "accounting_invariant now (fst (cancelReservation rt rid db))"
proof -
  let ?P = "\<lambda>r. id_res r = rid \<and> status r = PENDING"
  let ?f = "\<lambda>r. r\<lparr>status := CANCELLED, cancelled_at := Some (clock rt 0)\<rparr>"
  have "accounting_invariant now (db\<lparr>reservations := map (\<lambda>r. if ?P r then ?f r else r) (reservations db)\<rparr>)"
    using assms(2)
    by (intro accounting_invariant_rewrite assms(1))
       (auto simp: held_def quantities_positive_def list_all_iff dest: order.strict_implies_order)
  then show ?thesis
    using assms(1,3)
    by (auto simp: cancelReservation_def update_single_def
        split: sum.splits if_splits prod.splits PostgrestError.splits)
qed

lemma expireReservations_keeps_contract:
  assumes "accounting_invariant now db" and "quantities_positive db" and "others rt = (\<lambda>k. id)"
  shows "accounting_invariant now (fst (expireReservations rt db))"
proof -
  have "accounting_invariant now
          (update_where (\<lambda>r. Q r \<and> status r = PENDING) (\<lambda>r. r\<lparr>status := EXPIRED\<rparr>) db)" for Q
    unfolding update_where_def using assms(2)
    by (intro accounting_invariant_rewrite assms(1))
       (auto simp: held_def quantities_positive_def list_all_iff dest: order.strict_implies_order)
  then show ?thesis
    using assms(1,3) by (simp add: expireReservations_def Let_def)
qed

lemma confirmReservation_keeps_contract:
  assumes "accounting_invariant (clock rt 0) db" and "others rt = (\<lambda>k. id)"
    and "\<And>r. getReservation db rid = Inr r \<Longrightarrow> expires_at r \<noteq> clock rt 0"
  shows "accounting_invariant (clock rt 0) (fst (confirmReservation rt rid db))"
proof (cases "getReservation db rid")
  case (Inl e)
  then show ?thesis using assms(1) by (simp add: confirmReservation_def)
next
  case (Inr r)
  let ?P = "\<lambda>x. id_res x = rid \<and> status x = PENDING"
  let ?f = "\<lambda>x. x\<lparr>status := CONFIRMED, confirmed_at := Some (clock rt 1)\<rparr>"
  have sel: "filter (\<lambda>x. id_res x = rid) (reservations db) = [r]"
    using Inr by (simp add: getReservation_Inr_iff)
  have only: "x = r" if "x \<in> set (reservations db)" "id_res x = rid" for x
  proof -
    from that have "x \<in> set (filter (\<lambda>x. id_res x = rid) (reservations db))" by simp
    then show ?thesis by (simp add: sel)
  qed
  show ?thesis
  proof (cases "status r = PENDING \<and> \<not> clock rt 0 > expires_at r")
    case False
    then show ?thesis
      using assms(1) Inr by (cases "status r") (auto simp: confirmReservation_def)
  next
    case True
    then have live: "expires_at r > clock rt 0"
      using assms(3) [OF Inr] by simp
    have "accounting_invariant (clock rt 0)
            (db\<lparr>reservations := map (\<lambda>x. if ?P x then ?f x else x) (reservations db)\<rparr>)"
    proof (intro accounting_invariant_rewrite assms(1))
      fix x i assume "x \<in> set (reservations db)" and "?P x"
      then have "x = r" using only by simp
      then show "held (clock rt 0) i (?f x) \<le> held (clock rt 0) i x"
        using True live by (simp add: held_def)
    qed
    then show ?thesis
      using True Inr assms(2) update_single_pending [OF Inr, of ?f]
      by (simp add: confirmReservation_def)
  qed
qed

lemma createReservation_keeps_contract:
  assumes "accounting_invariant (clock rt 0) db"
  shows "accounting_invariant (clock rt 0) (fst (createReservation rt input db))"
proof (cases "snd (createReservation rt input db)")
  case (Inl e)
  then have "fst (createReservation rt input db) = db"
    by (auto simp: createReservation_def insert_reservation_def Let_def
        split: sum.splits if_splits option.splits)
  then show ?thesis using assms by simp
next
  case (Inr resp)
  let ?row = "\<lparr>id_res = gen_random_uuid rt, item_id = item_id_in input,
              customer_id = customer_id_in input, quantity = quantity_in input,
              status = PENDING, created_at = NOW rt,
              expires_at = Date_setMinutes (LocalTZA rt) (clock rt 1)
                             (Date_getMinutes (LocalTZA rt) (clock rt 1) + RESERVATION_EXPIRY_MINUTES),
              confirmed_at = None, cancelled_at = None\<rparr>"
  from Inr obtain item a r' where
        item: "filter (\<lambda>i. id_item i = item_id_in input) (items db) = [item]"
    and a: "getAvailableQuantity (clock rt 0) (item_id_in input) db = Inr a"
    and enough: "\<not> a < quantity_in input"
    and ok: "accepted_row db ?row = Some r'"
    and db': "fst (createReservation rt input db) = db\<lparr>reservations := reservations db @ [r']\<rparr>"
    by (auto simp: createReservation_def itemExists_iff insert_reservation_def Let_def
        split: sum.splits if_splits option.splits)
  from ok have r': "item_id r' = item_id_in input" "quantity r' = quantity_in input"
    "status r' = PENDING"
    by (auto simp: accepted_row_def split: option.splits if_splits)
  have a_eq: "a = total_quantity item - (\<Sum>r\<leftarrow>reservations db. held (clock rt 0) (item_id_in input) r)"
    using a getAvailableQuantity_sum [OF item, of "clock rt 0"] counted_is_held [of "clock rt 0" "item_id_in input" db]
    by (simp add: live_pending_quantity_def confirmed_total_def)
  show ?thesis
    unfolding db' accounting_invariant_held
  proof
    fix i assume "i \<in> set (items (db\<lparr>reservations := reservations db @ [r']\<rparr>))"
    then have i: "i \<in> set (items db)" by simp
    have old: "(\<Sum>r\<leftarrow>reservations db. held (clock rt 0) (id_item i) r) \<le> total_quantity i"
      using assms i by (simp add: accounting_invariant_held)
    have "(\<Sum>r\<leftarrow>reservations db @ [r']. held (clock rt 0) (id_item i) r) \<le> total_quantity i"
    proof (cases "id_item i = item_id_in input")
      case True
      with i have "i \<in> set (filter (\<lambda>i. id_item i = item_id_in input) (items db))" by simp
      then have "i = item" by (simp add: item)
      then show ?thesis
        using True enough a_eq old by (simp add: held_def r')
    next
      case False
      then show ?thesis using old by (simp add: held_def r')
    qed
    then show "(\<Sum>r\<leftarrow>reservations (db\<lparr>reservations := reservations db @ [r']\<rparr>).
                  held (clock rt 0) (id_item i) r) \<le> total_quantity i"
      by simp
  qed
qed

text \<open>
  C1. The accounting contract does not survive every operation. In the shop, alice holds
  two units until 1700000060000. At exactly that instant her hold is no longer counted by
  the admission check (\<open>expires_at > now\<close> is false), so bob's order of two units is
  admitted, and the contract still holds. At the same instant \<open>confirmReservation\<close>
  still accepts alice's hold (\<open>now > expiresAt\<close> is false) and confirms it. The
  contract then fails: two units are confirmed and two are held live, four against a
  total of two.
\<close>

theorem confirm_at_expiry_oversells:
  "accounting_invariant 1700000000000 shop
   \<and> createReservation (alone (\<lambda>k. 1700000000000) res_1) (request ''alice'') shop =
       (shop\<lparr>reservations := [hold_1]\<rparr>, Inr (as_ReservationResponse hold_1))
   \<and> accounting_invariant 1700000000000 (shop\<lparr>reservations := [hold_1]\<rparr>)
   \<and> createReservation (alone (\<lambda>k. 1700000060000) res_2) (request ''bob'')
         (shop\<lparr>reservations := [hold_1]\<rparr>) =
       (shop\<lparr>reservations := [hold_1, hold_2 1700000060000]\<rparr>,
        Inr (as_ReservationResponse (hold_2 1700000060000)))
   \<and> accounting_invariant 1700000060000 (shop\<lparr>reservations := [hold_1, hold_2 1700000060000]\<rparr>)
   \<and> confirmReservation (alone (\<lambda>k. 1700000060000) res_3) res_1
         (shop\<lparr>reservations := [hold_1, hold_2 1700000060000]\<rparr>) =
       (shop\<lparr>reservations :=
               [hold_1\<lparr>status := CONFIRMED, confirmed_at := Some 1700000060000\<rparr>,
                hold_2 1700000060000]\<rparr>,
        Inr (as_ReservationResponse (hold_1\<lparr>status := CONFIRMED, confirmed_at := Some 1700000060000\<rparr>)))
   \<and> \<not> accounting_invariant 1700000060000
         (shop\<lparr>reservations :=
               [hold_1\<lparr>status := CONFIRMED, confirmed_at := Some 1700000060000\<rparr>,
                hold_2 1700000060000]\<rparr>)
   \<and> live_pending_quantity 1700000060000 item_b
         (shop\<lparr>reservations :=
               [hold_1\<lparr>status := CONFIRMED, confirmed_at := Some 1700000060000\<rparr>,
                hold_2 1700000060000]\<rparr>)
       + confirmed_total item_b
         (shop\<lparr>reservations :=
               [hold_1\<lparr>status := CONFIRMED, confirmed_at := Some 1700000060000\<rparr>,
                hold_2 1700000060000]\<rparr>) = 4
   \<and> total_quantity gadget = 2"
  by (simp add: evals confirmReservation_def accounting_invariant_def live_pending_quantity_def
      confirmed_total_def shop_defs ids)


end
